theory Spec2Isabelle
  imports Main "HOL-Library.Finite_Map" "HOL-Library.Multiset"
begin

section \<open>The untyped configuration document\<close>

text \<open>
  \<^verbatim>\<open>app/migrations.go\<close> works on what \<^verbatim>\<open>yaml.v2\<close> decodes into
  \<^verbatim>\<open>map[string]interface{}\<close>: a tree of dynamically typed values. A value of
  \<^verbatim>\<open>interface{}\<close> is one of the following; the two map constructors are two different
  dynamic types, and a type assertion to one of them fails on the other.
  Integers are Go's \<^verbatim>\<open>int\<close>; the code only compares them, so they are unbounded here.
  A \<^verbatim>\<open>float64\<close> is a finite value, an infinity or NaN.
  Maps are finite maps, so two documents are equal exactly when they hold the same keys
  with the same values, whatever the order of the keys.
  The document handed to the migration code is a non-nil map (the root of the YAML file
  is a mapping).
\<close>

datatype float64 = FNaN | FPosInf | FNegInf | FFin rat

datatype key = KNil | KBool bool | KInt int | KFloat float64 | KStr string

datatype val =
    VNil
  | VBool bool
  | VInt int
  | VFloat float64
  | VStr string
  | VList "val list"
  | VMapI "(key, val) fmap"
  | VMapS "(string, val) fmap"

type_synonym imap = "(key, val) fmap"
type_synonym doc = "(string, val) fmap"

text \<open>\<^verbatim>\<open>_, exists := m[k]\<close>\<close>

definition has :: "('k, val) fmap \<Rightarrow> 'k \<Rightarrow> bool" where
  "has m k = (fmlookup m k \<noteq> None)"

text \<open>
  The comma-ok type assertions \<^verbatim>\<open>m[k].(T)\<close>: a missing key reads as the nil interface,
  on which every assertion fails.
\<close>

fun asInt :: "val option \<Rightarrow> int option" where
  "asInt (Some (VInt i)) = Some i"
| "asInt _ = None"

fun asStr :: "val option \<Rightarrow> string option" where
  "asStr (Some (VStr s)) = Some s"
| "asStr _ = None"

fun asBool :: "val option \<Rightarrow> bool option" where
  "asBool (Some (VBool b)) = Some b"
| "asBool _ = None"

fun asMapI :: "val option \<Rightarrow> imap option" where
  "asMapI (Some (VMapI m)) = Some m"
| "asMapI _ = None"

fun asList :: "val option \<Rightarrow> val list option" where
  "asList (Some (VList xs)) = Some xs"
| "asList _ = None"

text \<open>
  \<^verbatim>\<open>a == b\<close> on two interface values: values of different dynamic types are unequal,
  values of one comparable type are compared (NaN differs from everything), and two values
  of one uncomparable type (slices, maps) make the comparison panic: \<open>None\<close>.
\<close>

fun float64_eq :: "float64 \<Rightarrow> float64 \<Rightarrow> bool" where
  "float64_eq FNaN _ = False"
| "float64_eq _ FNaN = False"
| "float64_eq a b = (a = b)"

fun goEq :: "val \<Rightarrow> val \<Rightarrow> bool option" where
  "goEq (VList _) (VList _) = None"
| "goEq (VMapI _) (VMapI _) = None"
| "goEq (VMapS _) (VMapS _) = None"
| "goEq (VFloat a) (VFloat b) = Some (float64_eq a b)"
| "goEq a b = Some (a = b)"

text \<open>
  A Go function \<^verbatim>\<open>func(data map[string]interface{}) error\<close> mutates the document in
  place and returns nil or an error, or panics. \<open>Returned err data'\<close> is a return with
  the document as the call left it; an error is its message.
\<close>

datatype 'a outcome = Returned "string option" 'a | Panicked

section \<open>Version detection\<close>

definition CurrentSchemaVersion :: int where
  "CurrentSchemaVersion = 12"

definition detectSchemaVersion :: "doc \<Rightarrow> int" where
  "detectSchemaVersion data =
    (case asInt (fmlookup data ''schema_version'') of
       Some version \<Rightarrow>
         if version = 6 then
           (if has data ''az_count'' then 5
            else if has data ''create_private_subnets'' then 5
            else if has data ''enable_nat_gateway'' then 5
            else version)
         else version
     | None \<Rightarrow>
         if has data ''account_id'' then 5
         else if (case asMapI (fmlookup data ''workload'') of
                    Some workload \<Rightarrow> has workload (KStr ''backend_desired_count'')
                  | None \<Rightarrow> False) then 4
         else if (case asMapI (fmlookup data ''domain'') of
                    Some domain \<Rightarrow> has domain (KStr ''zone_id'')
                  | None \<Rightarrow> False) then 3
         else if (case asMapI (fmlookup data ''postgres'') of
                    Some postgres \<Rightarrow> has postgres (KStr ''aurora'')
                  | None \<Rightarrow> False) then 2
         else 1)"

section \<open>The migration steps\<close>

text \<open>
  The steps mutate nested maps through references held by the document. The document is a
  tree (\<^verbatim>\<open>yaml.v2\<close> decodes an alias into a fresh value), so a mutation of a sub-map is
  the document with the new sub-map stored under the same key. Console output is not part
  of the model.
\<close>

text \<open>\<^verbatim>\<open>if _, exists := m[k]; !exists { m[k] = v }\<close>\<close>

definition setDefault :: "('k, val) fmap \<Rightarrow> 'k \<Rightarrow> val \<Rightarrow> ('k, val) fmap" where
  "setDefault m k v = (if \<not> has m k then fmupd k v m else m)"

text \<open>\<^verbatim>\<open>if _, exists := m[k]; exists { delete(m, k) }\<close>\<close>

definition removeKey :: "('k, val) fmap \<Rightarrow> 'k \<Rightarrow> ('k, val) fmap" where
  "removeKey m k = (if has m k then fmdrop k m else m)"

definition migrateToV2 :: "doc \<Rightarrow> doc outcome" where
  "migrateToV2 data =
    (let data1 =
       (case asMapI (fmlookup data ''postgres'') of
          Some postgres \<Rightarrow>
            if \<not> has postgres (KStr ''aurora'') then
              fmupd ''postgres''
                (VMapI (fmupd (KStr ''max_capacity'') (VFloat (FFin 1))
                       (fmupd (KStr ''min_capacity'') (VFloat (FFin (1 / 2)))
                       (fmupd (KStr ''aurora'') (VBool False) postgres)))) data
            else data
        | None \<Rightarrow> data);
       data2 =
         (if \<not> has data1 ''alb''
          then fmupd ''alb'' (VMapS (fmupd ''enabled'' (VBool False) fmempty)) data1
          else data1)
     in Returned None data2)"

definition migrateToV3 :: "doc \<Rightarrow> doc outcome" where
  "migrateToV3 data =
    (case asMapI (fmlookup data ''domain'') of
       Some domain \<Rightarrow>
         let createDomainZone =
               (case asBool (fmlookup domain (KStr ''create_domain_zone'')) of
                  Some boolVal \<Rightarrow> boolVal
                | None \<Rightarrow> True);
             d1 = (if \<not> createDomainZone
                   then setDefault domain (KStr ''zone_id'') (VStr '''') else domain);
             d2 = setDefault d1 (KStr ''root_zone_id'') (VStr '''');
             d3 = setDefault d2 (KStr ''root_account_id'') (VStr '''');
             d4 = setDefault d3 (KStr ''is_dns_root'') (VBool False);
             d5 = setDefault d4 (KStr ''dns_root_account_id'') (VStr '''');
             d6 = setDefault d5 (KStr ''delegation_role_arn'') (VStr '''');
             d7 = setDefault d6 (KStr ''api_domain_prefix'') (VStr '''');
             d8 = setDefault d7 (KStr ''add_env_domain_prefix'') (VBool False)
         in Returned None (fmupd ''domain'' (VMapI d8) data)
     | None \<Rightarrow> Returned None data)"

text \<open>
  \<^verbatim>\<open>if c, exists := w[k]; !exists { w[k] = d } else if i, ok := c.(int); ok && i == 0 { w[k] = d }\<close>
\<close>

definition fixZero :: "imap \<Rightarrow> key \<Rightarrow> val \<Rightarrow> imap" where
  "fixZero workload k dflt =
    (case fmlookup workload k of
       None \<Rightarrow> fmupd k dflt workload
     | Some c \<Rightarrow>
        (case asInt (Some c) of
           Some countInt \<Rightarrow> if countInt = 0 then fmupd k dflt workload else workload
         | None \<Rightarrow> workload))"

text \<open>
  \<^verbatim>\<open>if c, exists := w[k]; !exists || c == "" { w[k] = d }\<close>: the comparison with a string
  never panics, and holds exactly for the empty string.
\<close>

definition fixEmpty :: "('k, val) fmap \<Rightarrow> 'k \<Rightarrow> val \<Rightarrow> ('k, val) fmap" where
  "fixEmpty workload k dflt =
    (case fmlookup workload k of
       None \<Rightarrow> fmupd k dflt workload
     | Some c \<Rightarrow> if c = VStr '''' then fmupd k dflt workload else workload)"

definition migrateToV4 :: "doc \<Rightarrow> doc outcome" where
  "migrateToV4 data =
    (case asMapI (fmlookup data ''workload'') of
       Some workload \<Rightarrow>
         let w1 = fixZero workload (KStr ''backend_desired_count'') (VInt 1);
             w2 = setDefault w1 (KStr ''backend_autoscaling_enabled'') (VBool False);
             w3 = fixZero w2 (KStr ''backend_autoscaling_min_capacity'') (VInt 1);
             w4 = fixZero w3 (KStr ''backend_autoscaling_max_capacity'') (VInt 4);
             w5 = fixEmpty w4 (KStr ''backend_cpu'') (VStr ''256'');
             w6 = fixEmpty w5 (KStr ''backend_memory'') (VStr ''512'');
             w7 = setDefault w6 (KStr ''backend_alb_domain_name'') (VStr '''')
         in Returned None (fmupd ''workload'' (VMapI w7) data)
     | None \<Rightarrow> Returned None data)"

definition migrateToV5 :: "doc \<Rightarrow> doc outcome" where
  "migrateToV5 data =
    (let data1 = setDefault data ''account_id'' (VStr '''');
         data2 = setDefault data1 ''aws_profile'' (VStr '''')
     in Returned None data2)"

definition migrateToV6 :: "doc \<Rightarrow> doc outcome" where
  "migrateToV6 data =
    (let data1 = setDefault data ''use_default_vpc'' (VBool True);
         data2 =
           (case fmlookup data1 ''vpc_cidr'' of
              Some vpcCIDR \<Rightarrow>
                if vpcCIDR = VStr '''' then fmupd ''vpc_cidr'' (VStr ''10.0.0.0/16'') data1
                else data1
            | None \<Rightarrow> data1);
         data3 = removeKey data2 ''az_count'';
         data4 = removeKey data3 ''create_private_subnets'';
         data5 = removeKey data4 ''enable_nat_gateway''
     in Returned None data5)"

definition migrateToV7 :: "doc \<Rightarrow> doc outcome" where
  "migrateToV7 data =
    (let data1 =
       (if \<not> has data ''ecr_strategy'' then
          let env = (case asStr (fmlookup data ''env'') of Some e \<Rightarrow> e | None \<Rightarrow> '''');
              ecrAccountID = fmlookup data ''ecr_account_id''
          in if env = ''dev'' then fmupd ''ecr_strategy'' (VStr ''local'') data
             else if (case ecrAccountID of
                        Some v \<Rightarrow> v \<noteq> VNil \<and> v \<noteq> VStr ''''
                      | None \<Rightarrow> False)
               then fmupd ''ecr_strategy'' (VStr ''cross_account'') data
             else fmupd ''ecr_strategy'' (VStr ''local'') data
        else data);
       data2 = setDefault data1 ''ecr_account_id'' VNil;
       data3 = setDefault data2 ''ecr_account_region'' VNil
     in Returned None data3)"

definition migrateToV8 :: "doc \<Rightarrow> doc outcome" where
  "migrateToV8 data = Returned None (setDefault data ''ecr_trusted_accounts'' (VList []))"

text \<open>
  The closure \<^verbatim>\<open>addDefaultECRConfig\<close> of \<^verbatim>\<open>migrateV8ToV9\<close> (the step to version 10):
  the items after the loop, and its count.
\<close>

fun addDefaultECRConfig :: "val list \<Rightarrow> val list \<times> nat" where
  "addDefaultECRConfig [] = ([], 0)"
| "addDefaultECRConfig (itemRaw # items) =
    (case asMapI (Some itemRaw) of
       None \<Rightarrow>
         (let (rest, n) = addDefaultECRConfig items in (itemRaw # rest, n))
     | Some itemMap \<Rightarrow>
         if \<not> has itemMap (KStr ''ecr_config'') then
           (let (rest, n) = addDefaultECRConfig items
            in (VMapI (fmupd (KStr ''ecr_config'')
                        (VMapS (fmupd ''mode'' (VStr ''create_ecr'') fmempty)) itemMap) # rest,
                Suc n))
         else (let (rest, n) = addDefaultECRConfig items in (itemRaw # rest, n)))"

text \<open>
  \<^verbatim>\<open>if raw, exists := data[k]; exists { if items, ok := raw.([]interface{}); ok { ... } }\<close>
\<close>

definition ecrConfigFor :: "doc \<Rightarrow> string \<Rightarrow> doc \<times> nat" where
  "ecrConfigFor data k =
    (case asList (fmlookup data k) of
       Some items \<Rightarrow>
         (let (items', n) = addDefaultECRConfig items in (fmupd k (VList items') data, n))
     | None \<Rightarrow> (data, 0))"

definition migrateV8ToV9 :: "doc \<Rightarrow> doc outcome" where
  "migrateV8ToV9 data =
    (let (data1, n1) = ecrConfigFor data ''services'';
         (data2, n2) = ecrConfigFor data1 ''event_processor_tasks'';
         (data3, n3) = ecrConfigFor data2 ''scheduled_tasks''
     in Returned None data3)"

text \<open>
  \<^verbatim>\<open>migrateToV9\<close>, the computation of \<^verbatim>\<open>prefix\<close> from \<^verbatim>\<open>customDomain\<close>: Go strings are
  byte strings, \<^verbatim>\<open>s[n:]\<close> is \<open>drop n s\<close> and \<^verbatim>\<open>s[:n]\<close> is \<open>take n s\<close>. Both
  slices are guarded by a strict comparison of the lengths, so no index is negative.
\<close>

definition subdomainPrefix :: "string \<Rightarrow> string \<Rightarrow> string \<Rightarrow> bool \<Rightarrow> string" where
  "subdomainPrefix customDomain domainName env addEnvPrefix =
    (let prefix =
       (if length customDomain > length domainName \<and>
           drop (length customDomain - length domainName) customDomain = domainName
        then take (length customDomain - length domainName - 1) customDomain
        else customDomain)
     in if addEnvPrefix \<and> env \<noteq> '''' \<and> env \<noteq> ''prod'' then
          (let envPrefix = env @ ''.''
           in if length prefix > length envPrefix \<and>
                 drop (length prefix - length envPrefix) prefix = envPrefix
              then take (length prefix - length envPrefix - 1) prefix
              else prefix)
        else prefix)"

text \<open>
  The body of the loop over \<^verbatim>\<open>amplifyApps\<close>: the app after the iteration, and what the
  iteration adds to \<^verbatim>\<open>migrationCount\<close>.
\<close>

definition migrateApp :: "string \<Rightarrow> string \<Rightarrow> bool \<Rightarrow> val \<Rightarrow> val \<times> nat" where
  "migrateApp domainName env addEnvPrefix appRaw =
    (case asMapI (Some appRaw) of
       None \<Rightarrow> (appRaw, 0)
     | Some appMap \<Rightarrow>
         let customDomainOk = asStr (fmlookup appMap (KStr ''custom_domain''));
             customDomain = (case customDomainOk of Some s \<Rightarrow> s | None \<Rightarrow> '''');
             hasCustomDomain = (customDomainOk \<noteq> None);
             hasEnableRoot = has appMap (KStr ''enable_root_domain'')
         in if \<not> hasCustomDomain \<and> \<not> hasEnableRoot then (appRaw, 0)
            else
              let a1 = (if hasEnableRoot then fmdrop (KStr ''enable_root_domain'') appMap
                        else appMap)
              in if customDomain \<noteq> '''' \<and> domainName \<noteq> '''' then
                   (let prefix = subdomainPrefix customDomain domainName env addEnvPrefix;
                        a2 = (if prefix \<noteq> ''''
                              then fmupd (KStr ''subdomain_prefix'') (VStr prefix) a1 else a1);
                        a3 = fmdrop (KStr ''custom_domain'') a2
                    in (VMapI a3, 1))
                 else (VMapI a1, 0))"

fun migrateApps :: "string \<Rightarrow> string \<Rightarrow> bool \<Rightarrow> val list \<Rightarrow> val list \<times> nat" where
  "migrateApps domainName env addEnvPrefix [] = ([], 0)"
| "migrateApps domainName env addEnvPrefix (appRaw # apps) =
    (let (app', c) = migrateApp domainName env addEnvPrefix appRaw;
         (rest, n) = migrateApps domainName env addEnvPrefix apps
     in (app' # rest, c + n))"

definition migrateToV9 :: "doc \<Rightarrow> doc outcome" where
  "migrateToV9 data =
    (case fmlookup data ''amplify_apps'' of
       None \<Rightarrow> Returned None data
     | Some amplifyAppsRaw \<Rightarrow>
         if amplifyAppsRaw = VNil then Returned None data
         else
           (case asList (Some amplifyAppsRaw) of
              None \<Rightarrow> Returned None data
            | Some amplifyApps \<Rightarrow>
                let domainMap = asMapI (fmlookup data ''domain'');
                    domainName =
                      (case domainMap of
                         Some m \<Rightarrow>
                           (case asStr (fmlookup m (KStr ''domain_name'')) of
                              Some dn \<Rightarrow> dn | None \<Rightarrow> '''')
                       | None \<Rightarrow> '''');
                    addEnvPrefix =
                      (case domainMap of
                         Some m \<Rightarrow>
                           (case asBool (fmlookup m (KStr ''add_env_domain_prefix'')) of
                              Some aep \<Rightarrow> aep | None \<Rightarrow> False)
                       | None \<Rightarrow> False);
                    env = (case asStr (fmlookup data ''env'') of Some e \<Rightarrow> e | None \<Rightarrow> '''');
                    (apps', migrationCount) = migrateApps domainName env addEnvPrefix amplifyApps
                in Returned None (fmupd ''amplify_apps'' (VList apps') data)))"

text \<open>
  The loop of \<^verbatim>\<open>migrateToV11\<close>: the services after the loop and \<^verbatim>\<open>fixedCount\<close>, the
  number the step prints; \<open>None\<close> when \<^verbatim>\<open>hostPort != containerPort\<close> panics. The
  comparison is only evaluated when \<^verbatim>\<open>host_port\<close> is present.
\<close>

fun fixHostPorts :: "val list \<Rightarrow> (val list \<times> nat) option" where
  "fixHostPorts [] = Some ([], 0)"
| "fixHostPorts (serviceRaw # services) =
    (case asMapI (Some serviceRaw) of
       None \<Rightarrow> map_option (\<lambda>(rest, n). (serviceRaw # rest, n)) (fixHostPorts services)
     | Some serviceMap \<Rightarrow>
        (case fmlookup serviceMap (KStr ''container_port'') of
           None \<Rightarrow> map_option (\<lambda>(rest, n). (serviceRaw # rest, n)) (fixHostPorts services)
         | Some containerPort \<Rightarrow>
            (case (case fmlookup serviceMap (KStr ''host_port'') of
                     None \<Rightarrow> Some True
                   | Some hostPort \<Rightarrow> map_option Not (goEq hostPort containerPort)) of
               None \<Rightarrow> None
             | Some True \<Rightarrow>
                 map_option
                   (\<lambda>(rest, n).
                      (VMapI (fmupd (KStr ''host_port'') containerPort serviceMap) # rest, Suc n))
                   (fixHostPorts services)
             | Some False \<Rightarrow>
                 map_option (\<lambda>(rest, n). (serviceRaw # rest, n)) (fixHostPorts services))))"

definition migrateToV11 :: "doc \<Rightarrow> doc outcome" where
  "migrateToV11 data =
    (case fmlookup data ''services'' of
       None \<Rightarrow> Returned None data
     | Some servicesRaw \<Rightarrow>
         if servicesRaw = VNil then Returned None data
         else
           (case asList (Some servicesRaw) of
              None \<Rightarrow> Returned None data
            | Some services \<Rightarrow>
               (case fixHostPorts services of
                  None \<Rightarrow> Panicked
                | Some (services', fixedCount) \<Rightarrow>
                    Returned None (fmupd ''services'' (VList services') data))))"

text \<open>
  \<^verbatim>\<open>booleanDefaults\<close> of \<^verbatim>\<open>migrateToV12\<close>. Go ranges over the map in an unspecified
  order; the fields are distinct, so every order leaves the same map, and the model takes
  the order of the literal.
\<close>

definition booleanDefaults :: "(string \<times> val) list" where
  "booleanDefaults =
    [(''multi_az'', VBool False),
     (''storage_encrypted'', VBool True),
     (''deletion_protection'', VBool False),
     (''skip_final_snapshot'', VBool True),
     (''iam_database_authentication_enabled'', VBool False)]"

fun addBooleanDefaults :: "(string \<times> val) list \<Rightarrow> imap \<Rightarrow> imap \<times> nat" where
  "addBooleanDefaults [] postgres = (postgres, 0)"
| "addBooleanDefaults ((field, defaultValue) # rest) postgres =
    (if \<not> has postgres (KStr field) then
       (let (p, n) = addBooleanDefaults rest (fmupd (KStr field) defaultValue postgres)
        in (p, Suc n))
     else addBooleanDefaults rest postgres)"

definition migrateToV12 :: "doc \<Rightarrow> doc outcome" where
  "migrateToV12 data =
    (case fmlookup data ''postgres'' of
       None \<Rightarrow> Returned None data
     | Some postgresRaw \<Rightarrow>
         if postgresRaw = VNil then Returned None data
         else
           (case asMapI (Some postgresRaw) of
              None \<Rightarrow> Returned None data
            | Some postgres \<Rightarrow>
                let (postgres', fieldsAdded) = addBooleanDefaults booleanDefaults postgres
                in Returned None (fmupd ''postgres'' (VMapI postgres') data)))"

section \<open>The registry and the runner\<close>

record Migration =
  Version :: int
  Description :: string
  Apply :: "doc \<Rightarrow> doc outcome"

definition AllMigrations :: "Migration list" where
  "AllMigrations =
    [\<lparr>Version = 2, Description = ''Add Aurora Serverless v2 support and ALB configuration'',
      Apply = migrateToV2\<rparr>,
     \<lparr>Version = 3, Description = ''Add DNS management fields'', Apply = migrateToV3\<rparr>,
     \<lparr>Version = 4, Description = ''Add backend scaling configuration'', Apply = migrateToV4\<rparr>,
     \<lparr>Version = 5, Description = ''Add Account ID and AWS Profile fields'',
      Apply = migrateToV5\<rparr>,
     \<lparr>Version = 6, Description = ''Add custom VPC configuration'', Apply = migrateToV6\<rparr>,
     \<lparr>Version = 7, Description = ''Add ECR strategy configuration'', Apply = migrateToV7\<rparr>,
     \<lparr>Version = 8, Description = ''Add ECR trusted accounts for cross-account access'',
      Apply = migrateToV8\<rparr>,
     \<lparr>Version = 9, Description = ''Simplify Amplify domain configuration'',
      Apply = migrateToV9\<rparr>,
     \<lparr>Version = 10, Description = ''Add per-service ECR configuration'',
      Apply = migrateV8ToV9\<rparr>,
     \<lparr>Version = 11,
      Description =
        ''Ensure host_port matches container_port for services (awsvpc compatibility)'',
      Apply = migrateToV11\<rparr>,
     \<lparr>Version = 12,
      Description = ''Ensure all postgres boolean fields have explicit default values'',
      Apply = migrateToV12\<rparr>]"

text \<open>\<^verbatim>\<open>%d\<close> of an integer.\<close>

fun showNat :: "nat \<Rightarrow> string" where
  "showNat n =
    (if n < 10 then [''0123456789'' ! n]
     else showNat (n div 10) @ [''0123456789'' ! (n mod 10)])"

declare showNat.simps [simp del]

definition showInt :: "int \<Rightarrow> string" where
  "showInt i = (if i < 0 then ''-'' @ showNat (nat (- i)) else showNat (nat i))"

text \<open>
  The loop of \<^verbatim>\<open>applyMigrations\<close> over the registry. \<^verbatim>\<open>AllMigrations\<close> is a package
  variable that the loop reads; the registry is a parameter here, and \<open>applyMigrations\<close>
  below is the function at the value the package gives the variable.
\<close>

fun runMigrations :: "Migration list \<Rightarrow> int \<Rightarrow> doc \<Rightarrow> doc outcome" where
  "runMigrations [] currentVersion data = Returned None data"
| "runMigrations (migration # rest) currentVersion data =
    (if Version migration > currentVersion then
       (case Apply migration data of
          Returned None data' \<Rightarrow> runMigrations rest currentVersion data'
        | Returned (Some err) data' \<Rightarrow>
            Returned
              (Some (''migration to v'' @ showInt (Version migration) @ '' failed: '' @ err))
              data'
        | Panicked \<Rightarrow> Panicked)
     else runMigrations rest currentVersion data)"

definition applyMigrationsFrom :: "Migration list \<Rightarrow> doc \<Rightarrow> int \<Rightarrow> doc outcome" where
  "applyMigrationsFrom registry data currentVersion =
    (if currentVersion \<ge> CurrentSchemaVersion then Returned None data
     else
       (case runMigrations registry currentVersion data of
          Returned None data' \<Rightarrow>
            Returned None (fmupd ''schema_version'' (VInt CurrentSchemaVersion) data')
        | Returned (Some err) data' \<Rightarrow> Returned (Some err) data'
        | Panicked \<Rightarrow> Panicked))"

definition applyMigrations :: "doc \<Rightarrow> int \<Rightarrow> doc outcome" where
  "applyMigrations data currentVersion = applyMigrationsFrom AllMigrations data currentVersion"

section \<open>The loader\<close>

text \<open>
  The file system as \<^verbatim>\<open>os.ReadFile\<close> sees it: a path holds bytes, or reading it fails
  with a \<^verbatim>\<open>*PathError\<close>, whose operation (\<^verbatim>\<open>open\<close>, \<^verbatim>\<open>read\<close>) and cause come from the
  system and whose message is \<^verbatim>\<open>op + " " + path + ": " + cause\<close>.
\<close>

datatype fileState = Content string | Unreadable string string

type_synonym fs = "string \<Rightarrow> fileState"

definition osReadFile :: "fs \<Rightarrow> string \<Rightarrow> string + string" where
  "osReadFile files path =
    (case files path of
       Content bytes \<Rightarrow> Inr bytes
     | Unreadable opn cause \<Rightarrow> Inl (opn @ '' '' @ path @ '': '' @ cause))"

text \<open>
  What the loader calls outside \<^verbatim>\<open>migrations.go\<close>: the YAML library, the backup helper
  \<^verbatim>\<open>CreateProjectBackup\<close> and \<^verbatim>\<open>os.WriteFile\<close>. Each is a parameter; those that touch
  the disk return the file system they leave, also when they fail. \<open>zeroEnv\<close> is the
  zero value of \<^verbatim>\<open>Env\<close>; decoding into \<^verbatim>\<open>Env\<close> yields the struct as far as it was
  filled, and the error if any.
\<close>

record 'e ext =
  zeroEnv :: 'e
  yamlUnmarshalMap :: "string \<Rightarrow> string + doc"
  yamlMarshal :: "doc \<Rightarrow> string + string"
  yamlUnmarshalEnv :: "string \<Rightarrow> 'e \<times> string option"
  CreateProjectBackup :: "fs \<Rightarrow> string \<Rightarrow> (string + string) \<times> fs"
  osWriteFile :: "fs \<Rightarrow> string \<Rightarrow> string \<Rightarrow> string option \<times> fs"

definition backupFile :: "'e ext \<Rightarrow> fs \<Rightarrow> string \<Rightarrow> string option \<times> fs" where
  "backupFile x files filepath =
    (case CreateProjectBackup x files filepath of
       (Inl err, files') \<Rightarrow> (Some (''failed to create backup: '' @ err), files')
     | (Inr backupPath, files') \<Rightarrow> (None, files'))"

text \<open>
  The loop over \<^verbatim>\<open>possiblePaths\<close>: \<^verbatim>\<open>yamlPath\<close> (empty when no read succeeded),
  \<^verbatim>\<open>data\<close> and \<^verbatim>\<open>lastErr\<close> after the loop.
\<close>

fun readFirst :: "fs \<Rightarrow> string list \<Rightarrow> string option \<Rightarrow> string \<times> string \<times> string option" where
  "readFirst files [] lastErr = ('''', '''', lastErr)"
| "readFirst files (path # rest) lastErr =
    (case osReadFile files path of
       Inl err \<Rightarrow> readFirst files rest (Some err)
     | Inr bytes \<Rightarrow> (path, bytes, lastErr))"

definition possiblePaths :: "string \<Rightarrow> string list" where
  "possiblePaths name =
    [name @ ''.yaml'',
     ''project/'' @ name @ ''.yaml'',
     ''../../project/'' @ name @ ''.yaml'',
     ''../'' @ name @ ''.yaml'']"

text \<open>\<^verbatim>\<open>%v\<close> of an error value.\<close>

definition showErr :: "string option \<Rightarrow> string" where
  "showErr e = (case e of Some msg \<Rightarrow> msg | None \<Rightarrow> ''<nil>'')"

definition loadEnvWithMigrationFrom ::
  "Migration list \<Rightarrow> 'e ext \<Rightarrow> fs \<Rightarrow> string \<Rightarrow> ('e \<times> fs) outcome" where
  "loadEnvWithMigrationFrom registry x files name =
    (let e = zeroEnv x;
         (yamlPath, bytes, lastErr) = readFirst files (possiblePaths name) None
     in if yamlPath = '''' then
          Returned (Some (''error reading YAML file from any location: '' @ showErr lastErr))
            (e, files)
        else
          (case yamlUnmarshalMap x bytes of
             Inl err \<Rightarrow> Returned (Some (''error unmarshaling YAML: '' @ err)) (e, files)
           | Inr dataMap \<Rightarrow>
              (let currentVersion = detectSchemaVersion dataMap
               in if currentVersion < CurrentSchemaVersion then
                    (case backupFile x files yamlPath of
                       (Some err, files1) \<Rightarrow>
                         Returned (Some (''failed to create backup: '' @ err)) (e, files1)
                     | (None, files1) \<Rightarrow>
                        (case applyMigrationsFrom registry dataMap currentVersion of
                           Panicked \<Rightarrow> Panicked
                         | Returned (Some err) dataMap' \<Rightarrow>
                             Returned (Some (''migration failed: '' @ err)) (e, files1)
                         | Returned None dataMap' \<Rightarrow>
                            (case yamlMarshal x dataMap' of
                               Inl err \<Rightarrow>
                                 Returned (Some (''error marshaling migrated data: '' @ err))
                                   (e, files1)
                             | Inr migratedData \<Rightarrow>
                                (case osWriteFile x files1 yamlPath migratedData of
                                   (Some err, files2) \<Rightarrow>
                                     Returned (Some (''error writing migrated file: '' @ err))
                                       (e, files2)
                                 | (None, files2) \<Rightarrow>
                                    (case yamlUnmarshalEnv x migratedData of
                                       (e', Some err) \<Rightarrow>
                                         Returned
                                           (Some (''error unmarshaling YAML to Env struct: '' @ err))
                                           (e', files2)
                                     | (e', None) \<Rightarrow> Returned None (e', files2))))))
                  else
                    (case yamlUnmarshalEnv x bytes of
                       (e', Some err) \<Rightarrow>
                         Returned (Some (''error unmarshaling YAML to Env struct: '' @ err))
                           (e', files)
                     | (e', None) \<Rightarrow> Returned None (e', files)))))"

definition loadEnvWithMigration :: "'e ext \<Rightarrow> fs \<Rightarrow> string \<Rightarrow> ('e \<times> fs) outcome" where
  "loadEnvWithMigration x files name = loadEnvWithMigrationFrom AllMigrations x files name"

section \<open>Documents and notions used in the statements\<close>

text \<open>
  ``The sub-map \<open>sub\<close> of the document contains \<open>field\<close>'': the value under \<open>sub\<close> is
  a decoded YAML mapping that has the key.
\<close>

definition marker :: "doc \<Rightarrow> string \<Rightarrow> string \<Rightarrow> bool" where
  "marker data sub field =
    (case fmlookup data sub of
       Some (VMapI m) \<Rightarrow> fmlookup m (KStr field) \<noteq> None
     | _ \<Rightarrow> False)"

definition docV4 :: doc where
  "docV4 =
    fmupd ''workload'' (VMapI (fmupd (KStr ''backend_desired_count'') (VInt 2) fmempty))
      (fmupd ''postgres'' (VStr ''not a map'') fmempty)"

text \<open>The keys that \<^verbatim>\<open>migrateToV6\<close> adds or deletes.\<close>

definition vpcKeys :: "string set" where
  "vpcKeys = {''use_default_vpc'', ''az_count'', ''create_private_subnets'', ''enable_nat_gateway''}"

definition docStamped6 :: doc where
  "docStamped6 =
    fmupd ''schema_version'' (VInt 6)
      (fmupd ''az_count'' (VInt 2) (fmupd ''use_default_vpc'' (VBool False) fmempty))"

definition docRerun :: doc where
  "docRerun =
    fmupd ''schema_version'' (VInt 12)
      (fmupd ''ecr_account_region'' VNil
      (fmupd ''ecr_account_id'' VNil
      (fmupd ''ecr_strategy'' (VStr ''local'')
      (fmupd ''ecr_trusted_accounts'' (VList [])
      (fmupd ''use_default_vpc'' (VBool False) fmempty)))))"

text \<open>
  How a service record stands before \<^verbatim>\<open>migrateToV11\<close>: its \<^verbatim>\<open>container_port\<close> and
  \<^verbatim>\<open>host_port\<close> when it is a map; the host port equals the container port (Go's
  \<^verbatim>\<open>==\<close> on the two values), differs from it, or is missing. \<open>synced\<close> is the state
  the step is to establish: both ports present and the same value.
\<close>

definition ports :: "val \<Rightarrow> (val option \<times> val option) option" where
  "ports r =
    (case asMapI (Some r) of
       Some m \<Rightarrow> Some (fmlookup m (KStr ''container_port''), fmlookup m (KStr ''host_port''))
     | None \<Rightarrow> None)"

definition matching :: "val \<Rightarrow> bool" where
  "matching r =
    (case ports r of Some (Some c, Some h) \<Rightarrow> goEq h c = Some True | _ \<Rightarrow> False)"

definition mismatched :: "val \<Rightarrow> bool" where
  "mismatched r =
    (case ports r of Some (Some c, Some h) \<Rightarrow> goEq h c = Some False | _ \<Rightarrow> False)"

definition missingHost :: "val \<Rightarrow> bool" where
  "missingHost r = (case ports r of Some (Some c, None) \<Rightarrow> True | _ \<Rightarrow> False)"

definition synced :: "val \<Rightarrow> bool" where
  "synced r = (case ports r of Some (Some c, Some h) \<Rightarrow> h = c | _ \<Rightarrow> False)"

definition service :: "string \<Rightarrow> int \<Rightarrow> int option \<Rightarrow> val" where
  "service name containerPort hostPort =
    (let m = fmupd (KStr ''container_port'') (VInt containerPort)
               (fmupd (KStr ''name'') (VStr name) fmempty)
     in VMapI (case hostPort of Some h \<Rightarrow> fmupd (KStr ''host_port'') (VInt h) m | None \<Rightarrow> m))"

definition docServices :: "val list \<Rightarrow> doc" where
  "docServices services =
    fmupd ''services'' (VList services) (fmupd ''project'' (VStr ''shop'') fmempty)"

text \<open>
  A document with one Amplify app in the legacy format, base domain \<^verbatim>\<open>example.com\<close>,
  environment \<^verbatim>\<open>dev\<close> and the environment prefix enabled.
\<close>

definition docAmplify :: "string \<Rightarrow> doc" where
  "docAmplify customDomain =
    fmupd ''env'' (VStr ''dev'')
      (fmupd ''domain''
         (VMapI (fmupd (KStr ''add_env_domain_prefix'') (VBool True)
                (fmupd (KStr ''domain_name'') (VStr ''example.com'') fmempty)))
      (fmupd ''amplify_apps''
         (VList [VMapI (fmupd (KStr ''custom_domain'') (VStr customDomain)
                       (fmupd (KStr ''name'') (VStr ''web'') fmempty))])
       fmempty))"

definition appAfter :: "string \<Rightarrow> val" where
  "appAfter prefix =
    VMapI (fmupd (KStr ''subdomain_prefix'') (VStr prefix)
          (fmupd (KStr ''name'') (VStr ''web'') fmempty))"

text \<open>
  A service whose two ports are YAML sequences: \<^verbatim>\<open>container_port: [80]\<close>,
  \<^verbatim>\<open>host_port: [80]\<close>.
\<close>

definition docListPorts :: doc where
  "docListPorts =
    fmupd ''schema_version'' (VInt 10)
      (fmupd ''services''
         (VList [VMapI (fmupd (KStr ''host_port'') (VList [VInt 80])
                       (fmupd (KStr ''container_port'') (VList [VInt 80]) fmempty))])
       fmempty)"

text \<open>
  A document stamped with a version above the current one, and a document at version 11
  with what the run from 11 makes of it.
\<close>

definition doc13 :: doc where
  "doc13 = fmupd ''schema_version'' (VInt 13) (fmupd ''project'' (VStr ''shop'') fmempty)"

definition doc11 :: doc where
  "doc11 =
    fmupd ''schema_version'' (VInt 11)
      (fmupd ''postgres'' (VMapI (fmupd (KStr ''multi_az'') (VBool True) fmempty)) fmempty)"

definition doc11Migrated :: doc where
  "doc11Migrated =
    fmupd ''schema_version'' (VInt 12)
      (fmupd ''postgres''
         (VMapI (fmupd (KStr ''iam_database_authentication_enabled'') (VBool False)
                (fmupd (KStr ''skip_final_snapshot'') (VBool True)
                (fmupd (KStr ''deletion_protection'') (VBool False)
                (fmupd (KStr ''storage_encrypted'') (VBool True)
                (fmupd (KStr ''multi_az'') (VBool True) fmempty))))))
       fmempty)"

text \<open>``The message names the path'': the path occurs in it.\<close>

fun occursIn :: "string \<Rightarrow> string \<Rightarrow> bool" where
  "occursIn p [] = (p = [])"
| "occursIn p (c # cs) = (take (length p) (c # cs) = p \<or> occursIn p cs)"

text \<open>
  A file system where no read succeeds, one where only \<^verbatim>\<open>project/dev.yaml\<close> is there,
  and collaborators for a loader whose typed document carries no information: the YAML
  library knows one document, the backup helper copies the file to \<^verbatim>\<open>backup/\<close>.
\<close>

definition filesNone :: fs where
  "filesNone = (\<lambda>path. Unreadable ''open'' ''no such file or directory'')"

definition filesDev :: fs where
  "filesDev = filesNone(''project/dev.yaml'' := Content ''project: shop'')"

definition docShop :: doc where
  "docShop = fmupd ''project'' (VStr ''shop'') fmempty"

definition extUnit :: "unit ext" where
  "extUnit =
    \<lparr>zeroEnv = (),
     yamlUnmarshalMap =
       (\<lambda>bytes. if bytes = ''project: shop'' then Inr docShop
                 else Inl ''yaml: unsupported document''),
     yamlMarshal = (\<lambda>data. Inr ''project: shop''),
     yamlUnmarshalEnv = (\<lambda>bytes. ((), None)),
     CreateProjectBackup =
       (\<lambda>files path. (Inr (''backup/'' @ path), files(''backup/'' @ path := files path))),
     osWriteFile = (\<lambda>files path bytes. (None, files(path := Content bytes)))\<rparr>"

text \<open>A registry entry whose mutation function returns an error.\<close>

definition failingStep :: Migration where
  "failingStep =
    \<lparr>Version = 3, Description = ''a step that fails'',
     Apply =
       (\<lambda>data. Returned (Some ''zone lookup failed'') (fmupd ''touched'' (VBool True) data))\<rparr>"

text \<open>
  A field of the document: a top-level key, a key of a sub-map, or a key of the \<open>i\<close>-th
  record of a list; \<open>getField\<close> reads it. \<open>addsDefault version f\<close>: the step to
  \<open>version\<close> writes a default into \<open>f\<close> when \<open>f\<close> is absent (of \<^verbatim>\<open>migrateToV2\<close>
  the two fields it guards by their own absence, \<^verbatim>\<open>aurora\<close> and \<^verbatim>\<open>alb\<close>).
  \<open>sentinel version f v\<close>: the step replaces the value \<open>v\<close> of the present field
  \<open>f\<close> on purpose, the zero and empty values that \<^verbatim>\<open>migrateToV4\<close> fixes.
\<close>

datatype fieldRef = Top string | Sub string string | Item string nat string

definition itemField :: "val list \<Rightarrow> nat \<Rightarrow> string \<Rightarrow> val option" where
  "itemField items i k =
    (if i < length items then
       (case asMapI (Some (items ! i)) of Some m \<Rightarrow> fmlookup m (KStr k) | None \<Rightarrow> None)
     else None)"

fun getField :: "doc \<Rightarrow> fieldRef \<Rightarrow> val option" where
  "getField data (Top k) = fmlookup data k"
| "getField data (Sub s k) =
    (case asMapI (fmlookup data s) of Some m \<Rightarrow> fmlookup m (KStr k) | None \<Rightarrow> None)"
| "getField data (Item l i k) =
    (case asList (fmlookup data l) of Some items \<Rightarrow> itemField items i k | None \<Rightarrow> None)"

definition addsDefault :: "int \<Rightarrow> fieldRef \<Rightarrow> bool" where
  "addsDefault version f =
    (if version = 2 then f \<in> {Sub ''postgres'' ''aurora'', Top ''alb''}
     else if version = 3 then
       f \<in> Sub ''domain'' ` {''zone_id'', ''root_zone_id'', ''root_account_id'', ''is_dns_root'',
          ''dns_root_account_id'', ''delegation_role_arn'', ''api_domain_prefix'',
          ''add_env_domain_prefix''}
     else if version = 4 then
       f \<in> Sub ''workload'' ` {''backend_desired_count'', ''backend_autoscaling_enabled'',
          ''backend_autoscaling_min_capacity'', ''backend_autoscaling_max_capacity'',
          ''backend_cpu'', ''backend_memory'', ''backend_alb_domain_name''}
     else if version = 5 then f \<in> {Top ''account_id'', Top ''aws_profile''}
     else if version = 6 then f = Top ''use_default_vpc''
     else if version = 7 then
       f \<in> {Top ''ecr_strategy'', Top ''ecr_account_id'', Top ''ecr_account_region''}
     else if version = 8 then f = Top ''ecr_trusted_accounts''
     else if version = 10 then
       (case f of
          Item l i k \<Rightarrow>
            l \<in> {''services'', ''event_processor_tasks'', ''scheduled_tasks''} \<and>
            k = ''ecr_config''
        | _ \<Rightarrow> False)
     else if version = 12 then
       f \<in> Sub ''postgres'' ` {''multi_az'', ''storage_encrypted'', ''deletion_protection'',
          ''skip_final_snapshot'', ''iam_database_authentication_enabled''}
     else False)"

definition sentinel :: "int \<Rightarrow> fieldRef \<Rightarrow> val \<Rightarrow> bool" where
  "sentinel version f v =
    (version = 4 \<and>
     (f \<in> Sub ''workload'' ` {''backend_desired_count'', ''backend_autoscaling_min_capacity'',
         ''backend_autoscaling_max_capacity''} \<and> v = VInt 0 \<or>
      f \<in> Sub ''workload'' ` {''backend_cpu'', ''backend_memory''} \<and> v = VStr ''''))"

text \<open>
  A workload with a zero count and an empty CPU setting, and one whose settings are all
  legitimate; each with what \<^verbatim>\<open>migrateToV4\<close> makes of it.
\<close>

definition docWorkload :: "val \<Rightarrow> val \<Rightarrow> doc" where
  "docWorkload desiredCount cpu =
    fmupd ''workload''
      (VMapI (fmupd (KStr ''backend_cpu'') cpu
             (fmupd (KStr ''backend_desired_count'') desiredCount fmempty)))
      fmempty"

definition docWorkloadV4 :: "val \<Rightarrow> val \<Rightarrow> doc" where
  "docWorkloadV4 desiredCount cpu =
    fmupd ''workload''
      (VMapI (fmupd (KStr ''backend_alb_domain_name'') (VStr '''')
             (fmupd (KStr ''backend_memory'') (VStr ''512'')
             (fmupd (KStr ''backend_autoscaling_max_capacity'') (VInt 4)
             (fmupd (KStr ''backend_autoscaling_min_capacity'') (VInt 1)
             (fmupd (KStr ''backend_autoscaling_enabled'') (VBool False)
             (fmupd (KStr ''backend_cpu'') cpu
             (fmupd (KStr ''backend_desired_count'') desiredCount fmempty))))))))
      fmempty"

section \<open>Reading a map after an update\<close>

lemma lookup_setDefault:
  "fmlookup (setDefault m k v) k' =
    (if k' = k \<and> fmlookup m k = None then Some v else fmlookup m k')"
  by (auto simp: setDefault_def has_def)

lemma lookup_removeKey:
  "fmlookup (removeKey m k) k' = (if k' = k then None else fmlookup m k')"
  by (auto simp: removeKey_def has_def)

lemma lookup_fixZero:
  "fmlookup (fixZero m k d) k' =
    (if k' = k \<and> (fmlookup m k = None \<or> fmlookup m k = Some (VInt 0)) then Some d
     else fmlookup m k')"
  by (auto simp: fixZero_def split: option.splits val.splits elim: asInt.elims)

lemma lookup_fixEmpty:
  "fmlookup (fixEmpty m k d) k' =
    (if k' = k \<and> (fmlookup m k = None \<or> fmlookup m k = Some (VStr '''')) then Some d
     else fmlookup m k')"
  by (auto simp: fixEmpty_def split: option.splits)

section \<open>Version detection without a version stamp\<close>

lemma asMapI_marker:
  "(case asMapI (fmlookup data sub) of Some m \<Rightarrow> has m (KStr field) | None \<Rightarrow> False) =
   marker data sub field"
  by (cases "fmlookup data sub"; simp add: marker_def has_def split: val.splits)

text \<open>
  C7. A document with no \<^verbatim>\<open>schema_version\<close> key is detected as version 5 when it has
  a top-level \<^verbatim>\<open>account_id\<close>, otherwise 4 when its \<^verbatim>\<open>workload\<close> sub-map contains
  \<^verbatim>\<open>backend_desired_count\<close>, otherwise 3 when its \<^verbatim>\<open>domain\<close> sub-map contains
  \<^verbatim>\<open>zone_id\<close>, otherwise 2 when its \<^verbatim>\<open>postgres\<close> sub-map contains \<^verbatim>\<open>aurora\<close>,
  otherwise 1. A sub-map that is absent or is not a map counts as not containing the
  marker. \<open>detectSchemaVersion\<close> has no panicking operation (map reads and comma-ok
  assertions only), so it is a total function to the integers.
\<close>

theorem detect_without_version:
  assumes "fmlookup data ''schema_version'' = None"
  shows "detectSchemaVersion data =
      (if has data ''account_id'' then 5
       else if marker data ''workload'' ''backend_desired_count'' then 4
       else if marker data ''domain'' ''zone_id'' then 3
       else if marker data ''postgres'' ''aurora'' then 2
       else 1) \<and>
    (\<forall>sub field. (\<forall>m. fmlookup data sub \<noteq> Some (VMapI m)) \<longrightarrow> \<not> marker data sub field)"
proof -
  have "\<not> marker data sub field" if "\<forall>m. fmlookup data sub \<noteq> Some (VMapI m)" for sub field
    using that by (simp add: marker_def split: option.splits val.splits)
  then show ?thesis
    using assms by (simp add: detectSchemaVersion_def asMapI_marker)
qed

theorem detect_without_version_witness:
  "fmlookup docV4 ''schema_version'' = None \<and>
   (\<forall>m. fmlookup docV4 ''postgres'' \<noteq> Some (VMapI m)) \<and>
   \<not> marker docV4 ''postgres'' ''aurora'' \<and>
   detectSchemaVersion docV4 = 4"
  using detect_without_version [of docV4]
  by (simp add: docV4_def marker_def has_def)

section \<open>Keys that a step leaves alone\<close>

lemma v6_result:
  "\<exists>data6. migrateToV6 data = Returned None data6 \<and>
     fmlookup data6 ''use_default_vpc'' =
       (case fmlookup data ''use_default_vpc'' of Some v \<Rightarrow> Some v | None \<Rightarrow> Some (VBool True)) \<and>
     fmlookup data6 ''az_count'' = None \<and>
     fmlookup data6 ''create_private_subnets'' = None \<and>
     fmlookup data6 ''enable_nat_gateway'' = None"
  by (simp add: migrateToV6_def Let_def lookup_setDefault lookup_removeKey split: option.splits)

lemma v7_top:
  "migrateToV7 d = Returned None d' \<Longrightarrow>
   k \<notin> {''ecr_strategy'', ''ecr_account_id'', ''ecr_account_region''} \<Longrightarrow>
   fmlookup d' k = fmlookup d k"
  by (auto simp: migrateToV7_def Let_def lookup_setDefault split: if_splits)

lemma v8_top:
  "migrateToV8 d = Returned None d' \<Longrightarrow> k \<noteq> ''ecr_trusted_accounts'' \<Longrightarrow>
   fmlookup d' k = fmlookup d k"
  by (auto simp: migrateToV8_def lookup_setDefault)

lemma v9_top:
  "migrateToV9 d = Returned None d' \<Longrightarrow> k \<noteq> ''amplify_apps'' \<Longrightarrow>
   fmlookup d' k = fmlookup d k"
  by (auto simp: migrateToV9_def Let_def split: option.splits if_splits prod.splits)

lemma ecrConfigFor_top:
  "ecrConfigFor d l = (d', n) \<Longrightarrow> k \<noteq> l \<Longrightarrow> fmlookup d' k = fmlookup d k"
  by (auto simp: ecrConfigFor_def split: option.splits prod.splits)

lemma v10_top:
  "migrateV8ToV9 d = Returned None d' \<Longrightarrow>
   k \<notin> {''services'', ''event_processor_tasks'', ''scheduled_tasks''} \<Longrightarrow>
   fmlookup d' k = fmlookup d k"
  by (auto simp: migrateV8ToV9_def Let_def split: prod.splits dest!: ecrConfigFor_top [where k = k])

lemma v11_top:
  "migrateToV11 d = Returned None d' \<Longrightarrow> k \<noteq> ''services'' \<Longrightarrow>
   fmlookup d' k = fmlookup d k"
  by (auto simp: migrateToV11_def split: option.splits if_splits prod.splits)

lemma v12_top:
  "migrateToV12 d = Returned None d' \<Longrightarrow> k \<noteq> ''postgres'' \<Longrightarrow>
   fmlookup d' k = fmlookup d k"
  by (auto simp: migrateToV12_def split: option.splits if_splits prod.splits)

text \<open>A key that every step of a registry leaves alone is left alone by the loop.\<close>

lemma runMigrations_keeps:
  assumes "\<forall>m \<in> set ms. \<forall>d d'. Apply m d = Returned None d' \<longrightarrow> fmlookup d' k = fmlookup d k"
    and "runMigrations ms cv d = Returned None d'"
  shows "fmlookup d' k = fmlookup d k"
  using assms
proof (induction ms arbitrary: d)
  case Nil
  then show ?case by simp
next
  case (Cons m ms)
  from Cons.prems(1)
  have step: "\<forall>m \<in> set ms. \<forall>d d'. Apply m d = Returned None d' \<longrightarrow> fmlookup d' k = fmlookup d k"
    and hd: "\<forall>d d'. Apply m d = Returned None d' \<longrightarrow> fmlookup d' k = fmlookup d k"
    by simp_all
  show ?case
  proof (cases "Version m > cv")
    case False
    with Cons.prems(2) have "runMigrations ms cv d = Returned None d'" by simp
    with Cons.IH step show ?thesis by blast
  next
    case True
    with Cons.prems(2) obtain d1 where a: "Apply m d = Returned None d1"
      and r: "runMigrations ms cv d1 = Returned None d'"
      by (auto split: outcome.splits option.splits)
    have "fmlookup d1 k = fmlookup d k" using hd a by blast
    moreover have "fmlookup d' k = fmlookup d1 k" using Cons.IH step r by blast
    ultimately show ?thesis by simp
  qed
qed

section \<open>Re-detection of a stamped version 6\<close>

lemma vpcKeys_untouched:
  assumes "k \<in> vpcKeys"
  shows "k \<notin> {''ecr_strategy'', ''ecr_account_id'', ''ecr_account_region''}"
    and "k \<noteq> ''ecr_trusted_accounts''" and "k \<noteq> ''amplify_apps''"
    and "k \<notin> {''services'', ''event_processor_tasks'', ''scheduled_tasks''}"
    and "k \<noteq> ''services''" and "k \<noteq> ''postgres''" and "k \<noteq> ''schema_version''"
  using assms by (auto simp: vpcKeys_def)

lemma after_v6_keeps:
  assumes "k \<in> vpcKeys" and "m \<in> set (drop 5 AllMigrations)" and "Apply m d = Returned None d'"
  shows "fmlookup d' k = fmlookup d k"
proof -
  note u = vpcKeys_untouched [OF assms(1)]
  from assms(2) consider "Apply m = migrateToV7" | "Apply m = migrateToV8"
    | "Apply m = migrateToV9" | "Apply m = migrateV8ToV9" | "Apply m = migrateToV11"
    | "Apply m = migrateToV12"
    by (auto simp: AllMigrations_def)
  then show ?thesis
  proof cases
    case 1 with assms(3) show ?thesis using v7_top u(1) by simp
  next
    case 2 with assms(3) show ?thesis using v8_top u(2) by simp
  next
    case 3 with assms(3) show ?thesis using v9_top u(3) by simp
  next
    case 4 with assms(3) show ?thesis using v10_top u(4) by simp
  next
    case 5 with assms(3) show ?thesis using v11_top u(5) by simp
  next
    case 6 with assms(3) show ?thesis using v12_top u(6) by simp
  qed
qed

lemma run_from_5:
  "migrateToV6 data = Returned None data6 \<Longrightarrow>
   runMigrations AllMigrations 5 data = runMigrations (drop 5 AllMigrations) 5 data6"
  by (simp add: AllMigrations_def)

text \<open>
  C2. A document whose \<^verbatim>\<open>schema_version\<close> is the integer 6 and that still has one of
  \<^verbatim>\<open>az_count\<close>, \<^verbatim>\<open>create_private_subnets\<close>, \<^verbatim>\<open>enable_nat_gateway\<close> is detected as
  version 5. The run from the detected version skips the steps up to version 5 and applies
  \<^verbatim>\<open>migrateToV6\<close> to the document as it is, then the later steps to the result. The v6
  step returns nil; after it \<^verbatim>\<open>use_default_vpc\<close> is present, with the value it had
  when it was there before and \<^verbatim>\<open>true\<close> otherwise, and none of the three deprecated
  keys remains. Every run that returns has stamped the current version and has left these
  four keys as the v6 step left them.
\<close>

theorem v6_rerun:
  assumes "fmlookup data ''schema_version'' = Some (VInt 6)"
    and "has data ''az_count'' \<or> has data ''create_private_subnets'' \<or>
         has data ''enable_nat_gateway''"
  shows "detectSchemaVersion data = 5 \<and>
    (\<exists>data6.
       migrateToV6 data = Returned None data6 \<and>
       runMigrations AllMigrations 5 data = runMigrations (drop 5 AllMigrations) 5 data6 \<and>
       fmlookup data6 ''use_default_vpc'' =
         (case fmlookup data ''use_default_vpc'' of
            Some v \<Rightarrow> Some v
          | None \<Rightarrow> Some (VBool True)) \<and>
       \<not> has data6 ''az_count'' \<and> \<not> has data6 ''create_private_subnets'' \<and>
       \<not> has data6 ''enable_nat_gateway'' \<and>
       (\<forall>data'. applyMigrations data (detectSchemaVersion data) = Returned None data' \<longrightarrow>
          fmlookup data' ''schema_version'' = Some (VInt CurrentSchemaVersion) \<and>
          (\<forall>k \<in> vpcKeys. fmlookup data' k = fmlookup data6 k)))"
proof -
  have det: "detectSchemaVersion data = 5"
    using assms by (auto simp: detectSchemaVersion_def)
  obtain data6 where v6: "migrateToV6 data = Returned None data6"
    and p: "fmlookup data6 ''use_default_vpc'' =
       (case fmlookup data ''use_default_vpc'' of Some v \<Rightarrow> Some v | None \<Rightarrow> Some (VBool True))"
      "fmlookup data6 ''az_count'' = None"
      "fmlookup data6 ''create_private_subnets'' = None"
      "fmlookup data6 ''enable_nat_gateway'' = None"
    using v6_result [of data] by blast
  note r5 = run_from_5 [OF v6]
  have fin: "fmlookup data' ''schema_version'' = Some (VInt CurrentSchemaVersion) \<and>
          (\<forall>k \<in> vpcKeys. fmlookup data' k = fmlookup data6 k)"
    if a: "applyMigrations data (detectSchemaVersion data) = Returned None data'" for data'
  proof -
    from a det r5 obtain d1 where
      r: "runMigrations (drop 5 AllMigrations) 5 data6 = Returned None d1"
      and e: "data' = fmupd ''schema_version'' (VInt CurrentSchemaVersion) d1"
      by (auto simp: applyMigrations_def applyMigrationsFrom_def CurrentSchemaVersion_def
               split: outcome.splits option.splits)
    have "fmlookup d1 k = fmlookup data6 k" if "k \<in> vpcKeys" for k
      using after_v6_keeps [OF that] r
        runMigrations_keeps [of "drop 5 AllMigrations" k 5 data6 d1]
      by blast
    moreover have "fmlookup data' k = fmlookup d1 k" if "k \<in> vpcKeys" for k
      using e vpcKeys_untouched(7) [OF that] by simp
    ultimately show ?thesis using e by simp
  qed
  show ?thesis using det v6 r5 p fin by (auto simp: has_def)
qed

theorem v6_rerun_witness:
  "fmlookup docStamped6 ''schema_version'' = Some (VInt 6) \<and>
   has docStamped6 ''az_count'' \<and>
   detectSchemaVersion docStamped6 = 5 \<and>
   applyMigrations docStamped6 (detectSchemaVersion docStamped6) = Returned None docRerun \<and>
   fmlookup docRerun ''use_default_vpc'' = Some (VBool False) \<and>
   fmlookup docRerun ''az_count'' = None"
proof -
  have s: "fmlookup docStamped6 ''schema_version'' = Some (VInt 6)"
    and h: "has docStamped6 ''az_count''"
    by (simp_all add: docStamped6_def has_def)
  then have hyp: "has docStamped6 ''az_count'' \<or> has docStamped6 ''create_private_subnets'' \<or>
      has docStamped6 ''enable_nat_gateway''"
    by simp
  have run: "applyMigrations docStamped6 5 = Returned None docRerun"
    unfolding docStamped6_def docRerun_def by code_simp
  have det: "detectSchemaVersion docStamped6 = 5"
    using v6_rerun [OF s hyp] by simp
  have "fmlookup docRerun ''use_default_vpc'' = Some (VBool False)"
    and "fmlookup docRerun ''az_count'' = None"
    by (simp_all add: docRerun_def)
  with s h det run show ?thesis by simp
qed

section \<open>Host ports\<close>

lemma float64_eq_same: "float64_eq a b \<Longrightarrow> a = b"
  by (cases a; cases b) simp_all

lemma goEq_True: "goEq a b = Some True \<Longrightarrow> a = b"
  by (cases a; cases b) (auto dest: float64_eq_same)

text \<open>
  When every record is in one of the three states, the loop returns, leaves every record
  synced, and counts the records that were not matching.
\<close>

lemma fixHostPorts_sync:
  assumes "\<forall>r \<in> set services. matching r \<or> mismatched r \<or> missingHost r"
  shows "\<exists>services'. fixHostPorts services =
           Some (services', length (filter (\<lambda>r. \<not> matching r) services)) \<and>
         length services' = length services \<and> list_all synced services'"
  using assms
proof (induction services)
  case Nil
  then show ?case by simp
next
  case (Cons r rs)
  then obtain rs' where
    rest: "fixHostPorts rs = Some (rs', length (filter (\<lambda>r. \<not> matching r) rs))"
    and len: "length rs' = length rs" and all: "list_all synced rs'"
    by auto
  from Cons.prems have "matching r \<or> mismatched r \<or> missingHost r" by simp
  then show ?case
  proof (elim disjE)
    assume m: "matching r"
    then obtain mp c h where r: "r = VMapI mp"
      and c: "fmlookup mp (KStr ''container_port'') = Some c"
      and h: "fmlookup mp (KStr ''host_port'') = Some h" and e: "goEq h c = Some True"
      by (auto simp: matching_def ports_def split: option.splits val.splits elim!: asMapI.elims)
    from e have "h = c" by (rule goEq_True)
    with r c h have "synced r" by (simp add: synced_def ports_def)
    with m r c h e rest len all show ?thesis by simp
  next
    assume m: "mismatched r"
    then obtain mp c h where r: "r = VMapI mp"
      and c: "fmlookup mp (KStr ''container_port'') = Some c"
      and h: "fmlookup mp (KStr ''host_port'') = Some h" and e: "goEq h c = Some False"
      by (auto simp: mismatched_def ports_def split: option.splits val.splits elim!: asMapI.elims)
    then have nm: "\<not> matching r" by (simp add: matching_def ports_def)
    have "synced (VMapI (fmupd (KStr ''host_port'') c mp))"
      using c by (simp add: synced_def ports_def)
    with nm r c h e rest len all show ?thesis by simp
  next
    assume m: "missingHost r"
    then obtain mp c where r: "r = VMapI mp"
      and c: "fmlookup mp (KStr ''container_port'') = Some c"
      and h: "fmlookup mp (KStr ''host_port'') = None"
      by (auto simp: missingHost_def ports_def split: option.splits val.splits elim!: asMapI.elims)
    then have nm: "\<not> matching r" by (simp add: matching_def ports_def)
    have "synced (VMapI (fmupd (KStr ''host_port'') c mp))"
      using c by (simp add: synced_def ports_def)
    with nm r c h rest len all show ?thesis by simp
  qed
qed

text \<open>
  C8. The \<^verbatim>\<open>services\<close> list holds three records, in any order: one whose host port
  equals its container port, one whose host port differs from it, one with a container
  port and no host port. Then \<^verbatim>\<open>migrateToV11\<close> returns nil, the list it leaves has
  three records, each with \<^verbatim>\<open>host_port\<close> equal to \<^verbatim>\<open>container_port\<close>, and the count
  of fixed services that the step prints is 2.
\<close>

theorem v11_three_services:
  assumes "fmlookup data ''services'' = Some (VList services)"
    and "mset services = {#a, b, c#}"
    and "matching a" and "mismatched b" and "missingHost c"
  shows "\<exists>services'.
      fixHostPorts services = Some (services', 2) \<and>
      migrateToV11 data = Returned None (fmupd ''services'' (VList services') data) \<and>
      length services' = 3 \<and> list_all synced services'"
proof -
  have nb: "\<not> matching b" and nc: "\<not> matching c"
    using assms(4,5)
    by (auto simp: matching_def mismatched_def missingHost_def split: option.splits)
  have "set services = {a, b, c}"
    using assms(2) by (metis set_mset_mset set_mset_add_mset_insert set_mset_empty)
  with assms(3-5) have ok: "\<forall>r \<in> set services. matching r \<or> mismatched r \<or> missingHost r"
    by auto
  have "length (filter (\<lambda>r. \<not> matching r) services) =
        size (filter_mset (\<lambda>r. \<not> matching r) (mset services))"
    by (metis mset_filter size_mset)
  also have "\<dots> = 2" using assms(2,3) nb nc by simp
  finally have cnt: "length (filter (\<lambda>r. \<not> matching r) services) = 2" .
  have len: "length services = 3"
    using assms(2) by (metis size_mset size_add_mset size_empty numeral_3_eq_3)
  from fixHostPorts_sync [OF ok] cnt len obtain services' where
    f: "fixHostPorts services = Some (services', 2)"
    and l: "length services' = 3" and s: "list_all synced services'"
    by auto
  from assms(1) f
  have "migrateToV11 data = Returned None (fmupd ''services'' (VList services') data)"
    by (simp add: migrateToV11_def)
  with f l s show ?thesis by blast
qed

theorem v11_three_services_witness:
  "matching (service ''web'' 8080 (Some 8080)) \<and>
   mismatched (service ''api'' 3000 (Some 80)) \<and>
   missingHost (service ''worker'' 9000 None) \<and>
   fixHostPorts
     [service ''web'' 8080 (Some 8080), service ''api'' 3000 (Some 80),
      service ''worker'' 9000 None] =
     Some ([service ''web'' 8080 (Some 8080), service ''api'' 3000 (Some 3000),
            service ''worker'' 9000 (Some 9000)], 2) \<and>
   migrateToV11
     (docServices [service ''web'' 8080 (Some 8080), service ''api'' 3000 (Some 80),
                   service ''worker'' 9000 None]) =
     Returned None
       (docServices [service ''web'' 8080 (Some 8080), service ''api'' 3000 (Some 3000),
                     service ''worker'' 9000 (Some 9000)])"
proof -
  let ?svcs = "[service ''web'' 8080 (Some 8080), service ''api'' 3000 (Some 80),
                service ''worker'' 9000 None]"
  have d: "fmlookup (docServices ?svcs) ''services'' = Some (VList ?svcs)"
    by (simp add: docServices_def)
  have m: "mset ?svcs =
      {#service ''web'' 8080 (Some 8080), service ''api'' 3000 (Some 80),
        service ''worker'' 9000 None#}"
    by simp
  have a: "matching (service ''web'' 8080 (Some 8080))"
    and b: "mismatched (service ''api'' 3000 (Some 80))"
    and c: "missingHost (service ''worker'' 9000 None)"
    by (simp_all add: matching_def mismatched_def missingHost_def ports_def service_def)
  have f: "fixHostPorts ?svcs =
      Some ([service ''web'' 8080 (Some 8080), service ''api'' 3000 (Some 3000),
             service ''worker'' 9000 (Some 9000)], 2)"
    by code_simp
  have r: "migrateToV11 (docServices ?svcs) =
      Returned None
        (docServices [service ''web'' 8080 (Some 8080), service ''api'' 3000 (Some 3000),
                      service ''worker'' 9000 (Some 9000)])"
    by code_simp
  from v11_three_services [OF d m a b c] a b c f r show ?thesis by simp
qed

section \<open>The Amplify domain prefix\<close>

text \<open>
  C3. Base domain \<^verbatim>\<open>example.com\<close>, environment \<^verbatim>\<open>dev\<close>, environment prefix enabled,
  and an app with \<^verbatim>\<open>custom_domain: app.dev.example.com\<close>: the v9 step removes
  \<^verbatim>\<open>custom_domain\<close> and sets \<^verbatim>\<open>subdomain_prefix\<close> to \<^verbatim>\<open>app.dev\<close>, not to \<^verbatim>\<open>app\<close>.
  After the base domain and its dot are cut off the prefix is \<^verbatim>\<open>app.dev\<close>; the code
  then looks for the suffix \<^verbatim>\<open>dev.\<close>, which a string that ends in \<^verbatim>\<open>.dev\<close> does not
  have.
\<close>

theorem v9_env_prefix_kept:
  "subdomainPrefix ''app.dev.example.com'' ''example.com'' ''dev'' True = ''app.dev'' \<and>
   migrateToV9 (docAmplify ''app.dev.example.com'') =
     Returned None
       (fmupd ''amplify_apps''
          (VList [appAfter ''app.dev''])
          (docAmplify ''app.dev.example.com''))"
  by code_simp

text \<open>
  C4. The same document with \<^verbatim>\<open>custom_domain: totallyunrelated.net\<close>, which does not
  end in the base domain: the v9 step removes \<^verbatim>\<open>custom_domain\<close> all the same, and sets
  \<^verbatim>\<open>subdomain_prefix\<close> to the whole of \<^verbatim>\<open>totallyunrelated.net\<close>.
\<close>

theorem v9_unrelated_domain_rewritten:
  "subdomainPrefix ''totallyunrelated.net'' ''example.com'' ''dev'' True =
     ''totallyunrelated.net'' \<and>
   migrateToV9 (docAmplify ''totallyunrelated.net'') =
     Returned None
       (fmupd ''amplify_apps''
          (VList [appAfter ''totallyunrelated.net''])
          (docAmplify ''totallyunrelated.net''))"
  by code_simp

section \<open>What a step can return\<close>

text \<open>No step of the registry returns an error: each returns nil or panics.\<close>

lemma v11_nil_or_panic:
  "migrateToV11 data = Panicked \<or> (\<exists>data'. migrateToV11 data = Returned None data')"
  by (auto simp: migrateToV11_def split: option.splits prod.splits)

lemma steps_return_no_error:
  assumes "m \<in> set AllMigrations"
  shows "Apply m data \<noteq> Returned (Some err) data'"
proof -
  from assms consider "Apply m = migrateToV2" | "Apply m = migrateToV3"
    | "Apply m = migrateToV4" | "Apply m = migrateToV5" | "Apply m = migrateToV6"
    | "Apply m = migrateToV7" | "Apply m = migrateToV8" | "Apply m = migrateToV9"
    | "Apply m = migrateV8ToV9" | "Apply m = migrateToV11" | "Apply m = migrateToV12"
    by (auto simp: AllMigrations_def)
  then show ?thesis
  proof cases
    case 1 then show ?thesis by (simp add: migrateToV2_def Let_def)
  next
    case 2 then show ?thesis by (simp add: migrateToV3_def Let_def split: option.splits)
  next
    case 3 then show ?thesis by (simp add: migrateToV4_def Let_def split: option.splits)
  next
    case 4 then show ?thesis by (simp add: migrateToV5_def Let_def)
  next
    case 5 then show ?thesis by (simp add: migrateToV6_def Let_def)
  next
    case 6 then show ?thesis by (simp add: migrateToV7_def Let_def)
  next
    case 7 then show ?thesis by (simp add: migrateToV8_def)
  next
    case 8 then show ?thesis
      by (simp add: migrateToV9_def Let_def split: option.splits prod.splits)
  next
    case 9 then show ?thesis by (simp add: migrateV8ToV9_def Let_def split: prod.splits)
  next
    case 10 then show ?thesis using v11_nil_or_panic [of data] by auto
  next
    case 11 then show ?thesis
      by (simp add: migrateToV12_def Let_def split: option.splits prod.splits)
  qed
qed

text \<open>Every step but the one to version 11 returns nil on every document.\<close>

lemma steps_but_v11_return_nil:
  assumes "m \<in> set AllMigrations" and "Version m \<noteq> 11"
  shows "\<exists>data'. Apply m data = Returned None data'"
proof -
  from assms consider "Apply m = migrateToV2" | "Apply m = migrateToV3"
    | "Apply m = migrateToV4" | "Apply m = migrateToV5" | "Apply m = migrateToV6"
    | "Apply m = migrateToV7" | "Apply m = migrateToV8" | "Apply m = migrateToV9"
    | "Apply m = migrateV8ToV9" | "Apply m = migrateToV12"
    by (auto simp: AllMigrations_def)
  then show ?thesis
  proof cases
    case 1 then show ?thesis by (simp add: migrateToV2_def Let_def)
  next
    case 2 then show ?thesis by (simp add: migrateToV3_def Let_def split: option.splits)
  next
    case 3 then show ?thesis by (simp add: migrateToV4_def Let_def split: option.splits)
  next
    case 4 then show ?thesis by (simp add: migrateToV5_def Let_def)
  next
    case 5 then show ?thesis by (simp add: migrateToV6_def Let_def)
  next
    case 6 then show ?thesis by (simp add: migrateToV7_def Let_def)
  next
    case 7 then show ?thesis by (simp add: migrateToV8_def)
  next
    case 8 then show ?thesis
      by (simp add: migrateToV9_def Let_def case_prod_beta split: option.splits)
  next
    case 9 then show ?thesis by (simp add: migrateV8ToV9_def Let_def case_prod_beta)
  next
    case 10 then show ?thesis
      by (simp add: migrateToV12_def Let_def case_prod_beta split: option.splits)
  qed
qed

lemma runMigrations_no_error:
  assumes "\<forall>m \<in> set ms. \<forall>d e d'. Apply m d \<noteq> Returned (Some e) d'"
  shows "runMigrations ms cv data \<noteq> Returned (Some err) data'"
  using assms
  by (induction ms arbitrary: data) (auto split: outcome.splits option.splits)

lemma applyMigrations_no_error:
  "applyMigrations data cv \<noteq> Returned (Some err) data'"
  using runMigrations_no_error [of AllMigrations cv data] steps_return_no_error
  by (auto simp: applyMigrations_def applyMigrationsFrom_def split: outcome.splits option.splits)

lemma applyMigrations_nil_or_panic:
  "applyMigrations data cv = Panicked \<or> (\<exists>data'. applyMigrations data cv = Returned None data')"
proof (cases "applyMigrations data cv")
  case (Returned e d)
  with applyMigrations_no_error [of data cv _ d] show ?thesis by (cases e) auto
next
  case Panicked
  then show ?thesis by simp
qed

text \<open>
  C10. Not every step returns nil on every document: on a service whose
  \<^verbatim>\<open>host_port\<close> and \<^verbatim>\<open>container_port\<close> are both sequences, the comparison
  \<^verbatim>\<open>hostPort != containerPort\<close> of \<^verbatim>\<open>migrateToV11\<close> panics, and so does the run that
  reaches the step.
\<close>

theorem v11_panics_on_list_ports:
  "migrateToV11 docListPorts = Panicked \<and>
   detectSchemaVersion docListPorts = 10 \<and>
   applyMigrations docListPorts (detectSchemaVersion docListPorts) = Panicked"
  unfolding docListPorts_def by code_simp

section \<open>Running the pipeline twice\<close>

text \<open>
  C5, as the claim states it, fails on a document stamped above the current version: the
  run leaves it alone, and the second run detects 13, not \<open>CurrentSchemaVersion\<close>.
\<close>

theorem second_run_counterexample:
  "applyMigrations doc13 (detectSchemaVersion doc13) = Returned None doc13 \<and>
   detectSchemaVersion doc13 = 13 \<and> detectSchemaVersion doc13 \<noteq> CurrentSchemaVersion"
  by code_simp

text \<open>
  C5, amended. \<open>applyMigrations\<close> returns nil and leaves the document as it is whenever
  the version it is given is at least \<open>CurrentSchemaVersion\<close>. A document that a run
  of detection and migration has returned is detected at \<open>CurrentSchemaVersion\<close> or
  above (exactly \<open>CurrentSchemaVersion\<close> when the first run had detected less), and
  the second run returns nil with the very same document.
\<close>

theorem second_run_is_noop:
  "(\<forall>data v. CurrentSchemaVersion \<le> v \<longrightarrow> applyMigrations data v = Returned None data) \<and>
   (\<forall>data data'.
      applyMigrations data (detectSchemaVersion data) = Returned None data' \<longrightarrow>
        CurrentSchemaVersion \<le> detectSchemaVersion data' \<and>
        (detectSchemaVersion data < CurrentSchemaVersion \<longrightarrow>
           detectSchemaVersion data' = CurrentSchemaVersion) \<and>
        applyMigrations data' (detectSchemaVersion data') = Returned None data')"
proof -
  have noop: "applyMigrations data v = Returned None data"
    if "CurrentSchemaVersion \<le> v" for data v
    using that by (simp add: applyMigrations_def applyMigrationsFrom_def)
  have second: "CurrentSchemaVersion \<le> detectSchemaVersion data' \<and>
        (detectSchemaVersion data < CurrentSchemaVersion \<longrightarrow>
           detectSchemaVersion data' = CurrentSchemaVersion) \<and>
        applyMigrations data' (detectSchemaVersion data') = Returned None data'"
    if run: "applyMigrations data (detectSchemaVersion data) = Returned None data'"
    for data data'
  proof (cases "CurrentSchemaVersion \<le> detectSchemaVersion data")
    case True
    with run noop [of "detectSchemaVersion data" data] have "data' = data" by simp
    with True noop show ?thesis by simp
  next
    case False
    with run obtain d1 where "data' = fmupd ''schema_version'' (VInt CurrentSchemaVersion) d1"
      by (auto simp: applyMigrations_def applyMigrationsFrom_def
               split: outcome.splits option.splits)
    then have "detectSchemaVersion data' = CurrentSchemaVersion"
      by (simp add: detectSchemaVersion_def CurrentSchemaVersion_def)
    with noop show ?thesis by simp
  qed
  from noop second show ?thesis by blast
qed

theorem second_run_is_noop_witness:
  "CurrentSchemaVersion \<le> 12 \<and>
   applyMigrations doc11Migrated 12 = Returned None doc11Migrated \<and>
   detectSchemaVersion doc11 = 11 \<and>
   applyMigrations doc11 (detectSchemaVersion doc11) = Returned None doc11Migrated \<and>
   detectSchemaVersion doc11Migrated = CurrentSchemaVersion \<and>
   applyMigrations doc11Migrated (detectSchemaVersion doc11Migrated) =
     Returned None doc11Migrated"
proof -
  have c: "CurrentSchemaVersion \<le> 12" by (simp add: CurrentSchemaVersion_def)
  have d: "detectSchemaVersion doc11 = 11"
    by (simp add: detectSchemaVersion_def doc11_def)
  have r: "applyMigrations doc11 (detectSchemaVersion doc11) = Returned None doc11Migrated"
    by code_simp
  from d have lt: "detectSchemaVersion doc11 < CurrentSchemaVersion"
    by (simp add: CurrentSchemaVersion_def)
  from second_run_is_noop have
    n: "\<And>data v. CurrentSchemaVersion \<le> v \<Longrightarrow> applyMigrations data v = Returned None data"
    and s: "\<And>data data'.
        applyMigrations data (detectSchemaVersion data) = Returned None data' \<Longrightarrow>
        CurrentSchemaVersion \<le> detectSchemaVersion data' \<and>
        (detectSchemaVersion data < CurrentSchemaVersion \<longrightarrow>
           detectSchemaVersion data' = CurrentSchemaVersion) \<and>
        applyMigrations data' (detectSchemaVersion data') = Returned None data'"
    by blast+
  from s [OF r] lt have e: "detectSchemaVersion doc11Migrated = CurrentSchemaVersion"
    and a: "applyMigrations doc11Migrated (detectSchemaVersion doc11Migrated) =
      Returned None doc11Migrated"
    by blast+
  from n [OF c] c d r e a show ?thesis by simp
qed

section \<open>A step that returns an error\<close>

lemma runMigrations_append:
  "runMigrations (xs @ ys) cv d =
    (case runMigrations xs cv d of
       Returned None d' \<Rightarrow> runMigrations ys cv d'
     | Returned (Some e) d' \<Rightarrow> Returned (Some e) d'
     | Panicked \<Rightarrow> Panicked)"
  by (induction xs arbitrary: d) (auto split: outcome.splits option.splits)

text \<open>
  C6. The registry holds a step \<open>m\<close> that the run selects; the steps before it
  return nil and leave \<open>data1\<close>, on which the mutation function of \<open>m\<close> returns the
  error \<open>err\<close>, leaving \<open>data2\<close>. Then \<open>applyMigrationsFrom\<close> returns the error
  \<^verbatim>\<open>migration to v<Version m> failed: <err>\<close> with the document \<open>data2\<close>, as the
  failing step left it and without the version stamp, and whatever steps follow \<open>m\<close> in
  the registry: none of them is applied. The loader, having read and parsed the file and
  taken the backup, returns the zero \<^verbatim>\<open>Env\<close> and the error wrapped once more, with the
  file system as the backup helper left it, and whatever \<^verbatim>\<open>os.WriteFile\<close> would do: the
  loader does not write.
\<close>

theorem step_error_aborts:
  assumes "currentVersion < CurrentSchemaVersion"
    and "runMigrations before currentVersion data = Returned None data1"
    and "Version m > currentVersion"
    and "Apply m data1 = Returned (Some err) data2"
    and "readFirst files (possiblePaths name) None = (yamlPath, bytes, lastErr)"
    and "yamlPath \<noteq> ''''"
    and "yamlUnmarshalMap x bytes = Inr data"
    and "detectSchemaVersion data = currentVersion"
    and "backupFile x files yamlPath = (None, files1)"
  shows "(\<forall>after. applyMigrationsFrom (before @ m # after) data currentVersion =
            Returned (Some (''migration to v'' @ showInt (Version m) @ '' failed: '' @ err))
              data2) \<and>
         (\<forall>after w.
            loadEnvWithMigrationFrom (before @ m # after) (x\<lparr>osWriteFile := w\<rparr>) files name =
              Returned
                (Some (''migration failed: migration to v'' @ showInt (Version m) @
                       '' failed: '' @ err))
                (zeroEnv x, files1))"
proof -
  have run: "applyMigrationsFrom (before @ m # after) data currentVersion =
            Returned (Some (''migration to v'' @ showInt (Version m) @ '' failed: '' @ err))
              data2" for after
    using assms(1-4) by (simp add: applyMigrationsFrom_def runMigrations_append)
  have "loadEnvWithMigrationFrom (before @ m # after) (x\<lparr>osWriteFile := w\<rparr>) files name =
              Returned
                (Some (''migration failed: migration to v'' @ showInt (Version m) @
                       '' failed: '' @ err))
                (zeroEnv x, files1)" for after w
    using assms(1,5-9) run [of after]
    by (simp add: loadEnvWithMigrationFrom_def backupFile_def)
  with run show ?thesis by blast
qed

theorem step_error_aborts_witness:
  "loadEnvWithMigrationFrom (hd AllMigrations # failingStep # drop 2 AllMigrations)
     extUnit filesDev ''dev'' =
     Returned (Some ''migration failed: migration to v3 failed: zone lookup failed'')
       ((), filesDev(''backup/project/dev.yaml'' := Content ''project: shop'')) \<and>
   (filesDev(''backup/project/dev.yaml'' := Content ''project: shop'')) ''project/dev.yaml'' =
     filesDev ''project/dev.yaml'' \<and>
   applyMigrationsFrom (hd AllMigrations # failingStep # drop 2 AllMigrations) docShop 1 =
     Returned (Some ''migration to v3 failed: zone lookup failed'')
       (fmupd ''touched'' (VBool True)
          (fmupd ''alb'' (VMapS (fmupd ''enabled'' (VBool False) fmempty)) docShop))"
proof -
  let ?data1 = "fmupd ''alb'' (VMapS (fmupd ''enabled'' (VBool False) fmempty)) docShop"
  let ?files1 = "filesDev(''backup/project/dev.yaml'' := Content ''project: shop'')"
  have a1: "(1::int) < CurrentSchemaVersion" by (simp add: CurrentSchemaVersion_def)
  have a2: "runMigrations [hd AllMigrations] 1 docShop = Returned None ?data1"
    by (simp add: AllMigrations_def migrateToV2_def has_def docShop_def)
  have a3: "Version failingStep > 1" by (simp add: failingStep_def)
  have a4: "Apply failingStep ?data1 =
      Returned (Some ''zone lookup failed'') (fmupd ''touched'' (VBool True) ?data1)"
    by (simp add: failingStep_def)
  have a5: "readFirst filesDev (possiblePaths ''dev'') None =
      (''project/dev.yaml'', ''project: shop'',
       Some ''open dev.yaml: no such file or directory'')"
    by (simp add: possiblePaths_def osReadFile_def filesDev_def filesNone_def)
  have a6: "''project/dev.yaml'' \<noteq> ''''" by simp
  have a7: "yamlUnmarshalMap extUnit ''project: shop'' = Inr docShop"
    by (simp add: extUnit_def)
  have a8: "detectSchemaVersion docShop = 1"
    by (simp add: detectSchemaVersion_def docShop_def has_def)
  have a9: "backupFile extUnit filesDev ''project/dev.yaml'' = (None, ?files1)"
    by (simp add: backupFile_def extUnit_def filesDev_def)
  have v: "showInt (Version failingStep) = ''3''"
    by (simp add: failingStep_def showInt_def showNat.simps)
  have x: "extUnit\<lparr>osWriteFile := osWriteFile extUnit\<rparr> = extUnit" by simp
  have f: "?files1 ''project/dev.yaml'' = filesDev ''project/dev.yaml''" by simp
  from step_error_aborts [OF a1 a2 a3 a4 a5 a6 a7 a8 a9]
  have "applyMigrationsFrom ([hd AllMigrations] @ failingStep # drop 2 AllMigrations) docShop 1 =
          Returned (Some (''migration to v'' @ showInt (Version failingStep) @ '' failed: '' @
            ''zone lookup failed'')) (fmupd ''touched'' (VBool True) ?data1)"
    and "loadEnvWithMigrationFrom ([hd AllMigrations] @ failingStep # drop 2 AllMigrations)
           (extUnit\<lparr>osWriteFile := osWriteFile extUnit\<rparr>) filesDev ''dev'' =
          Returned (Some (''migration failed: migration to v'' @
            showInt (Version failingStep) @ '' failed: '' @ ''zone lookup failed''))
            (zeroEnv extUnit, ?files1)"
    by blast+
  with v x f show ?thesis by (simp add: extUnit_def)
qed

section \<open>No candidate path can be read\<close>

lemma occursIn_prefix: "occursIn p (p @ b)"
  by (cases p; cases b) simp_all

lemma occursIn_append: "occursIn p (a @ p @ b)"
  by (induction a) (simp_all add: occursIn_prefix)

lemma readFirst_all_fail:
  assumes "\<forall>p \<in> set ps. \<exists>e. osReadFile files p = Inl e"
  shows "readFirst files ps lastErr =
    ('''', '''', if ps = [] then lastErr else Some (projl (osReadFile files (last ps))))"
  using assms
  by (induction ps arbitrary: lastErr) auto

text \<open>
  C9, as the claim states it, fails where no file exists: the message of the error names
  the last candidate only, and the candidate \<^verbatim>\<open>project/dev.yaml\<close> does not occur in it.
\<close>

theorem read_failure_counterexample:
  "loadEnvWithMigration extUnit filesNone ''dev'' =
     Returned
       (Some ''error reading YAML file from any location: open ../dev.yaml: no such file or directory'')
       ((), filesNone) \<and>
   ''project/dev.yaml'' \<in> set (possiblePaths ''dev'') \<and>
   \<not> occursIn ''project/dev.yaml''
      ''error reading YAML file from any location: open ../dev.yaml: no such file or directory''"
  by (simp add: loadEnvWithMigration_def loadEnvWithMigrationFrom_def possiblePaths_def
      osReadFile_def filesNone_def showErr_def extUnit_def)

text \<open>
  C9, amended. When reading fails on every candidate path, the loader returns the zero
  \<^verbatim>\<open>Env\<close> and an error whose message is \<^verbatim>\<open>error reading YAML file from any location: \<close>
  followed by the error of the last read, that of \<^verbatim>\<open>../<name>.yaml\<close>; the message names
  that last path, and the file system is untouched.
\<close>

theorem read_failure_names_last_path:
  assumes "\<forall>p \<in> set (possiblePaths name). \<exists>e. osReadFile files p = Inl e"
  shows "\<exists>opn cause.
      files (''../'' @ name @ ''.yaml'') = Unreadable opn cause \<and>
      loadEnvWithMigration x files name =
        Returned
          (Some (''error reading YAML file from any location: '' @
                 opn @ '' '' @ (''../'' @ name @ ''.yaml'') @ '': '' @ cause))
          (zeroEnv x, files) \<and>
      occursIn (''../'' @ name @ ''.yaml'')
        (''error reading YAML file from any location: '' @
         opn @ '' '' @ (''../'' @ name @ ''.yaml'') @ '': '' @ cause)"
proof -
  let ?last = "''../'' @ name @ ''.yaml''"
  have l: "last (possiblePaths name) = ?last" by (simp add: possiblePaths_def)
  then have "?last \<in> set (possiblePaths name)" by (simp add: possiblePaths_def)
  with assms obtain e where e: "osReadFile files ?last = Inl e" by blast
  then obtain opn cause where u: "files ?last = Unreadable opn cause"
    and m: "e = opn @ '' '' @ ?last @ '': '' @ cause"
    by (auto simp: osReadFile_def split: fileState.splits)
  have "readFirst files (possiblePaths name) None = ('''', '''', Some e)"
    using readFirst_all_fail [OF assms, of None] l e by (simp add: possiblePaths_def)
  then have r: "loadEnvWithMigration x files name =
        Returned (Some (''error reading YAML file from any location: '' @ e)) (zeroEnv x, files)"
    by (simp add: loadEnvWithMigration_def loadEnvWithMigrationFrom_def showErr_def)
  have "occursIn ?last
      ((''error reading YAML file from any location: '' @ opn @ '' '') @ ?last @ ('': '' @ cause))"
    by (rule occursIn_append)
  with u r m show ?thesis by simp
qed

theorem read_failure_names_last_path_witness:
  "list_all (\<lambda>p. osReadFile filesNone p = Inl (''open '' @ p @ '': no such file or directory''))
     (possiblePaths ''dev'') \<and>
   loadEnvWithMigration extUnit filesNone ''dev'' =
     Returned
       (Some ''error reading YAML file from any location: open ../dev.yaml: no such file or directory'')
       ((), filesNone) \<and>
   occursIn ''../dev.yaml''
     ''error reading YAML file from any location: open ../dev.yaml: no such file or directory''"
proof -
  have a: "list_all
      (\<lambda>p. osReadFile filesNone p = Inl (''open '' @ p @ '': no such file or directory''))
      (possiblePaths ''dev'')"
    by (simp add: possiblePaths_def osReadFile_def filesNone_def)
  then have h: "\<forall>p \<in> set (possiblePaths ''dev''). \<exists>e. osReadFile filesNone p = Inl e"
    by (auto simp: list_all_iff)
  have u: "filesNone ''../dev.yaml'' = Unreadable ''open'' ''no such file or directory''"
    by (simp add: filesNone_def)
  from read_failure_names_last_path [OF h, of extUnit] u a show ?thesis
    by (auto simp: extUnit_def)
qed

section \<open>Fields that are already present\<close>

lemma keep_v2:
  assumes "addsDefault 2 f" "getField data f = Some v"
  shows "\<exists>data'. migrateToV2 data = Returned None data' \<and> getField data' f = Some v"
  using assms
  by (auto simp: addsDefault_def migrateToV2_def Let_def has_def
      split: option.splits elim!: asMapI.elims)

lemma setDefault_keeps:
  "fmlookup m k = Some v \<Longrightarrow> fmlookup (setDefault m k' d) k = Some v"
  by (auto simp: lookup_setDefault)

lemma fixZero_keeps:
  "fmlookup m k = Some v \<Longrightarrow> (k = k' \<Longrightarrow> v \<noteq> VInt 0) \<Longrightarrow>
   fmlookup (fixZero m k' d) k = Some v"
  by (auto simp: lookup_fixZero)

lemma fixEmpty_keeps:
  "fmlookup m k = Some v \<Longrightarrow> (k = k' \<Longrightarrow> v \<noteq> VStr '''') \<Longrightarrow>
   fmlookup (fixEmpty m k' d) k = Some v"
  by (auto simp: lookup_fixEmpty)

lemma keep_v3:
  assumes "addsDefault 3 f" "getField data f = Some v"
  shows "\<exists>data'. migrateToV3 data = Returned None data' \<and> getField data' f = Some v"
proof -
  from assms(1) obtain k where f: "f = Sub ''domain'' k" by (auto simp: addsDefault_def)
  with assms(2) obtain dm where d: "fmlookup data ''domain'' = Some (VMapI dm)"
    and k: "fmlookup dm (KStr k) = Some v"
    by (auto split: option.splits elim!: asMapI.elims)
  show ?thesis using f d k
    by (auto simp: migrateToV3_def Let_def intro!: setDefault_keeps)
qed

lemma keep_v4:
  assumes "addsDefault 4 f" "getField data f = Some v" "\<not> sentinel 4 f v"
  shows "\<exists>data'. migrateToV4 data = Returned None data' \<and> getField data' f = Some v"
proof -
  from assms(1) obtain k where f: "f = Sub ''workload'' k" by (auto simp: addsDefault_def)
  with assms(2) obtain w where d: "fmlookup data ''workload'' = Some (VMapI w)"
    and k: "fmlookup w (KStr k) = Some v"
    by (auto split: option.splits elim!: asMapI.elims)
  from assms(3) f have
    z: "k \<in> {''backend_desired_count'', ''backend_autoscaling_min_capacity'',
         ''backend_autoscaling_max_capacity''} \<Longrightarrow> v \<noteq> VInt 0"
    and e: "k \<in> {''backend_cpu'', ''backend_memory''} \<Longrightarrow> v \<noteq> VStr ''''"
    by (auto simp: sentinel_def)
  have "fmlookup
      (setDefault
        (fixEmpty
          (fixEmpty
            (fixZero
              (fixZero
                (setDefault (fixZero w (KStr ''backend_desired_count'') (VInt 1))
                  (KStr ''backend_autoscaling_enabled'') (VBool False))
                (KStr ''backend_autoscaling_min_capacity'') (VInt 1))
              (KStr ''backend_autoscaling_max_capacity'') (VInt 4))
            (KStr ''backend_cpu'') (VStr ''256''))
          (KStr ''backend_memory'') (VStr ''512''))
        (KStr ''backend_alb_domain_name'') (VStr '''')) (KStr k) = Some v"
    using k z e by (intro setDefault_keeps fixZero_keeps fixEmpty_keeps) auto
  then show ?thesis using f d
    by (simp add: migrateToV4_def Let_def)
qed

lemma keep_v5:
  assumes "addsDefault 5 f" "getField data f = Some v"
  shows "\<exists>data'. migrateToV5 data = Returned None data' \<and> getField data' f = Some v"
  using assms
  by (auto simp: addsDefault_def migrateToV5_def Let_def lookup_setDefault)

lemma keep_v6:
  assumes "addsDefault 6 f" "getField data f = Some v"
  shows "\<exists>data'. migrateToV6 data = Returned None data' \<and> getField data' f = Some v"
  using assms
  by (auto simp: addsDefault_def migrateToV6_def Let_def lookup_setDefault removeKey_def has_def
      split: option.splits)

lemma keep_v7:
  assumes "addsDefault 7 f" "getField data f = Some v"
  shows "\<exists>data'. migrateToV7 data = Returned None data' \<and> getField data' f = Some v"
  using assms
  by (auto simp: addsDefault_def migrateToV7_def Let_def lookup_setDefault has_def)

lemma keep_v8:
  assumes "addsDefault 8 f" "getField data f = Some v"
  shows "\<exists>data'. migrateToV8 data = Returned None data' \<and> getField data' f = Some v"
  using assms
  by (auto simp: addsDefault_def migrateToV8_def lookup_setDefault)

lemma addDefaultECRConfig_keeps:
  "itemField items i k = Some v \<Longrightarrow> itemField (fst (addDefaultECRConfig items)) i k = Some v"
proof (induction items arbitrary: i)
  case Nil
  then show ?case by (simp add: itemField_def)
next
  case (Cons r rs)
  show ?case
  proof (cases i)
    case 0
    with Cons.prems show ?thesis
      by (auto simp: itemField_def has_def split: option.splits prod.splits if_splits
               elim!: asMapI.elims)
  next
    case (Suc j)
    with Cons.prems have "itemField rs j k = Some v"
      by (simp add: itemField_def split: if_splits)
    then have "itemField (fst (addDefaultECRConfig rs)) j k = Some v" by (rule Cons.IH)
    with Suc show ?thesis
      by (auto simp: itemField_def split: option.splits prod.splits if_splits)
  qed
qed

lemma ecrConfigFor_keeps:
  "getField data (Item l i k) = Some v \<Longrightarrow>
   getField (fst (ecrConfigFor data l')) (Item l i k) = Some v"
  using addDefaultECRConfig_keeps [of _ i k v]
  by (cases "l = l'")
     (auto simp: ecrConfigFor_def case_prod_beta split: option.splits elim!: asList.elims)

lemma keep_v10:
  assumes "addsDefault 10 f" "getField data f = Some v"
  shows "\<exists>data'. migrateV8ToV9 data = Returned None data' \<and> getField data' f = Some v"
proof -
  from assms(1) obtain l i k where f: "f = Item l i k"
    by (auto simp: addsDefault_def split: fieldRef.splits)
  let ?d1 = "fst (ecrConfigFor data ''services'')"
  let ?d2 = "fst (ecrConfigFor ?d1 ''event_processor_tasks'')"
  let ?d3 = "fst (ecrConfigFor ?d2 ''scheduled_tasks'')"
  from assms(2) f have "getField data (Item l i k) = Some v" by simp
  then have "getField ?d1 (Item l i k) = Some v" by (rule ecrConfigFor_keeps)
  then have "getField ?d2 (Item l i k) = Some v" by (rule ecrConfigFor_keeps)
  then have "getField ?d3 (Item l i k) = Some v" by (rule ecrConfigFor_keeps)
  then show ?thesis
    unfolding f migrateV8ToV9_def Let_def case_prod_beta by blast
qed

lemma addBooleanDefaults_keeps:
  "fmlookup p k = Some v \<Longrightarrow> fmlookup (fst (addBooleanDefaults ds p)) k = Some v"
proof (induction ds arbitrary: p)
  case Nil
  then show ?case by simp
next
  case (Cons a ds)
  obtain field dv where a: "a = (field, dv)" by (cases a)
  show ?case
  proof (cases "has p (KStr field)")
    case True
    with a Cons show ?thesis by simp
  next
    case False
    with Cons.prems have "KStr field \<noteq> k" by (auto simp: has_def)
    with Cons.prems have "fmlookup (fmupd (KStr field) dv p) k = Some v" by simp
    then have "fmlookup (fst (addBooleanDefaults ds (fmupd (KStr field) dv p))) k = Some v"
      by (rule Cons.IH)
    with a False show ?thesis by (simp add: case_prod_beta)
  qed
qed

lemma keep_v12:
  assumes "addsDefault 12 f" "getField data f = Some v"
  shows "\<exists>data'. migrateToV12 data = Returned None data' \<and> getField data' f = Some v"
proof -
  from assms(1) obtain k where f: "f = Sub ''postgres'' k" by (auto simp: addsDefault_def)
  with assms(2) obtain p where d: "fmlookup data ''postgres'' = Some (VMapI p)"
    and k: "fmlookup p (KStr k) = Some v"
    by (auto split: option.splits elim!: asMapI.elims)
  from k have "fmlookup (fst (addBooleanDefaults booleanDefaults p)) (KStr k) = Some v"
    by (rule addBooleanDefaults_keeps)
  with f d show ?thesis
    by (simp add: migrateToV12_def Let_def case_prod_beta)
qed

text \<open>
  C1, as the claim states it, fails on \<^verbatim>\<open>migrateToV4\<close>, the third step of the
  registry: a \<^verbatim>\<open>backend_desired_count\<close> that is present with the integer 0 becomes 1,
  and a \<^verbatim>\<open>backend_cpu\<close> that is present with the empty string becomes \<^verbatim>\<open>256\<close>.
\<close>

theorem zero_and_empty_overwritten:
  "getField (docWorkload (VInt 0) (VStr '''')) (Sub ''workload'' ''backend_desired_count'') =
     Some (VInt 0) \<and>
   getField (docWorkload (VInt 0) (VStr '''')) (Sub ''workload'' ''backend_cpu'') =
     Some (VStr '''') \<and>
   Apply (AllMigrations ! 2) (docWorkload (VInt 0) (VStr '''')) =
     Returned None (docWorkloadV4 (VInt 1) (VStr ''256''))"
  by code_simp

text \<open>
  C1, amended. For every step of the registry and every document: a field for which the
  step would add a default and that is already present, with any value, is still there
  with the same value after the step, and the step returns nil; except that
  \<^verbatim>\<open>migrateToV4\<close> replaces an integer 0 in \<^verbatim>\<open>backend_desired_count\<close>,
  \<^verbatim>\<open>backend_autoscaling_min_capacity\<close> and \<^verbatim>\<open>backend_autoscaling_max_capacity\<close>, and
  an empty string in \<^verbatim>\<open>backend_cpu\<close> and \<^verbatim>\<open>backend_memory\<close>. The fields
  \<^verbatim>\<open>min_capacity\<close> and \<^verbatim>\<open>max_capacity\<close> that \<^verbatim>\<open>migrateToV2\<close> writes together with
  \<^verbatim>\<open>aurora\<close> are not among the fields of the statement.
\<close>

theorem default_fields_kept:
  assumes "m \<in> set AllMigrations" and "addsDefault (Version m) f"
    and "getField data f = Some v" and "\<not> sentinel (Version m) f v"
  shows "\<exists>data'. Apply m data = Returned None data' \<and> getField data' f = Some v"
proof -
  from assms(1) consider
      "Version m = 2" "Apply m = migrateToV2" | "Version m = 3" "Apply m = migrateToV3"
    | "Version m = 4" "Apply m = migrateToV4" | "Version m = 5" "Apply m = migrateToV5"
    | "Version m = 6" "Apply m = migrateToV6" | "Version m = 7" "Apply m = migrateToV7"
    | "Version m = 8" "Apply m = migrateToV8" | "Version m = 9"
    | "Version m = 10" "Apply m = migrateV8ToV9" | "Version m = 11"
    | "Version m = 12" "Apply m = migrateToV12"
    by (auto simp: AllMigrations_def)
  then show ?thesis
  proof cases
    case 1 with assms(2,3) show ?thesis using keep_v2 by simp
  next
    case 2 with assms(2,3) show ?thesis using keep_v3 by simp
  next
    case 3 with assms(2-4) show ?thesis using keep_v4 by simp
  next
    case 4 with assms(2,3) show ?thesis using keep_v5 by simp
  next
    case 5 with assms(2,3) show ?thesis using keep_v6 by simp
  next
    case 6 with assms(2,3) show ?thesis using keep_v7 by simp
  next
    case 7 with assms(2,3) show ?thesis using keep_v8 by simp
  next
    case 8 with assms(2) show ?thesis by (simp add: addsDefault_def)
  next
    case 9 with assms(2,3) show ?thesis using keep_v10 by simp
  next
    case 10 with assms(2) show ?thesis by (simp add: addsDefault_def)
  next
    case 11 with assms(2,3) show ?thesis using keep_v12 by simp
  qed
qed

theorem default_fields_kept_witness:
  "AllMigrations ! 2 \<in> set AllMigrations \<and>
   addsDefault (Version (AllMigrations ! 2)) (Sub ''workload'' ''backend_desired_count'') \<and>
   getField (docWorkload (VInt 3) (VStr ''1024'')) (Sub ''workload'' ''backend_desired_count'') =
     Some (VInt 3) \<and>
   \<not> sentinel (Version (AllMigrations ! 2)) (Sub ''workload'' ''backend_desired_count'') (VInt 3) \<and>
   Apply (AllMigrations ! 2) (docWorkload (VInt 3) (VStr ''1024'')) =
     Returned None (docWorkloadV4 (VInt 3) (VStr ''1024'')) \<and>
   getField (docWorkloadV4 (VInt 3) (VStr ''1024'')) (Sub ''workload'' ''backend_desired_count'') =
     Some (VInt 3)"
proof -
  let ?f = "Sub ''workload'' ''backend_desired_count''"
  have a1: "AllMigrations ! 2 \<in> set AllMigrations" by (simp add: AllMigrations_def)
  have a2: "addsDefault (Version (AllMigrations ! 2)) ?f"
    by (simp add: AllMigrations_def addsDefault_def)
  have a3: "getField (docWorkload (VInt 3) (VStr ''1024'')) ?f = Some (VInt 3)"
    by (simp add: docWorkload_def)
  have a4: "\<not> sentinel (Version (AllMigrations ! 2)) ?f (VInt 3)"
    by (simp add: sentinel_def)
  have r: "Apply (AllMigrations ! 2) (docWorkload (VInt 3) (VStr ''1024'')) =
      Returned None (docWorkloadV4 (VInt 3) (VStr ''1024''))"
    by code_simp
  from default_fields_kept [OF a1 a2 a3 a4] r
  have "getField (docWorkloadV4 (VInt 3) (VStr ''1024'')) ?f = Some (VInt 3)" by simp
  with a1 a2 a3 a4 r show ?thesis by simp
qed

end
